theory Spec2Isabelle
  imports Complex_Main "HOL-Library.Sublist"
begin

section \<open>Python values, exceptions and effects\<close>

text \<open>
  The two programs (\<^verbatim>\<open>app.py\<close>, the Streamlit chat page, and \<^verbatim>\<open>data_ingestion.py\<close>,
  the batch loader) are sequential scripts over three network services. Every function
  is embedded as a state transformer that may raise: it takes the state and returns
  either the exception raised (\<open>Inl\<close>) or the value returned (\<open>Inr\<close>), together with the
  state reached. Effects performed before an exception was raised stay in the state.

  Only exceptions derived from Python's \<^verbatim>\<open>Exception\<close> are modelled; these are exactly the
  ones a clause \<^verbatim>\<open>except Exception\<close> handles.
\<close>

text \<open>A \<open>string\<close> stands for a Python \<^verbatim>\<open>str\<close> whose characters are code points below 256.
  \<open>PyException m\<close> is an exception of any class other than the two below, and
  \<open>PyIndexError m\<close> an \<^verbatim>\<open>IndexError\<close>; \<open>m\<close> is the text \<^verbatim>\<open>str(e)\<close> gives. \<open>PyKeyError k\<close> is
  the \<^verbatim>\<open>KeyError\<close> of a failed lookup of the key \<open>k\<close>.\<close>

datatype py_error =
    PyException string
  | PyKeyError string
  | PyIndexError string

text \<open>\<^verbatim>\<open>repr(s)\<close> of a \<^verbatim>\<open>str\<close>: between single quotes, or double quotes when the text
  holds a single quote and no double quote; the quote used and the backslash are
  escaped, tab, newline and carriage return are written \<^verbatim>\<open>\t\<close>, \<^verbatim>\<open>\n\<close>, \<^verbatim>\<open>\r\<close>, and every other
  character that is not printable is written \<^verbatim>\<open>\xhh\<close>.\<close>

definition hex_digit :: "nat \<Rightarrow> char" where
  "hex_digit d = (if d < 10 then char_of (48 + d) else char_of (87 + d))"

definition printable :: "char \<Rightarrow> bool" where
  "printable c = ((32 \<le> (of_char c :: nat) \<and> (of_char c :: nat) < 127)
                  \<or> (161 \<le> (of_char c :: nat) \<and> (of_char c :: nat) \<noteq> 173))"

definition repr_char :: "char \<Rightarrow> char \<Rightarrow> string" where
  "repr_char quote c =
     (if c = quote \<or> c = CHR 0x5C then [CHR 0x5C, c]
      else if c = CHR 0x09 then [CHR 0x5C, CHR ''t'']
      else if c = CHR 0x0A then [CHR 0x5C, CHR ''n'']
      else if c = CHR 0x0D then [CHR 0x5C, CHR ''r'']
      else if printable c then [c]
      else [CHR 0x5C, CHR ''x'', hex_digit (of_char c div 16), hex_digit (of_char c mod 16)])"

definition str_repr :: "string \<Rightarrow> string" where
  "str_repr s =
     (let quote = (if CHR 0x27 \<in> set s \<and> CHR 0x22 \<notin> set s then CHR 0x22 else CHR 0x27)
      in [quote] @ concat (map (repr_char quote) s) @ [quote])"

text \<open>\<^verbatim>\<open>str(e)\<close>, as the f-strings of the handlers print it. A \<^verbatim>\<open>KeyError\<close> prints the
  \<^verbatim>\<open>repr\<close> of its key.\<close>

fun exc_str :: "py_error \<Rightarrow> string" where
  "exc_str (PyException m) = m"
| "exc_str (PyKeyError k) = str_repr k"
| "exc_str (PyIndexError m) = m"

type_synonym ('s, 'a) py = "'s \<Rightarrow> (py_error + 'a) \<times> 's"

definition ret :: "'a \<Rightarrow> ('s, 'a) py" where
  "ret x = (\<lambda>s. (Inr x, s))"

definition raise :: "py_error \<Rightarrow> ('s, 'a) py" where
  "raise e = (\<lambda>s. (Inl e, s))"

definition bind :: "('s, 'a) py \<Rightarrow> ('a \<Rightarrow> ('s, 'b) py) \<Rightarrow> ('s, 'b) py" where
  "bind m f = (\<lambda>s. case m s of (Inl e, s') \<Rightarrow> (Inl e, s') | (Inr x, s') \<Rightarrow> f x s')"

text \<open>\<^verbatim>\<open>try: m  except Exception as e: h e\<close>\<close>

definition try_except :: "('s, 'a) py \<Rightarrow> (py_error \<Rightarrow> ('s, 'a) py) \<Rightarrow> ('s, 'a) py" where
  "try_except m h = (\<lambda>s. case m s of (Inl e, s') \<Rightarrow> h e s' | (Inr x, s') \<Rightarrow> (Inr x, s'))"

text \<open>\<^verbatim>\<open>str(n)\<close> of an integer.\<close>

definition digit_char :: "nat \<Rightarrow> char" where
  "digit_char d = char_of (48 + d)"

function str_nat :: "nat \<Rightarrow> string" where
  "str_nat n = (if n < 10 then [digit_char n] else str_nat (n div 10) @ [digit_char (n mod 10)])"
  by pat_completeness auto
termination
  by (relation "measure id") auto

declare str_nat.simps [simp del]

definition str_int :: "int \<Rightarrow> string" where
  "str_int i = (if i < 0 then ''-'' @ str_nat (nat (- i)) else str_nat (nat i))"

text \<open>
  Values of type \<^verbatim>\<open>Any\<close>: the cells and labels of a data frame, the texts handed to the
  embedder, and what reaches the prompt. A value is a \<^verbatim>\<open>str\<close>, an integer, a list, or an
  object of any other class (a float such as pandas' \<^verbatim>\<open>NaN\<close>, a match of the Pinecone
  client), which is represented by the two texts Python prints for it (\<^verbatim>\<open>str\<close> and
  \<^verbatim>\<open>repr\<close>). A list prints the \<^verbatim>\<open>repr\<close> of its elements.
\<close>

datatype pyval = PyStr string | PyInt int | PyList "pyval list" | PyObj string string

fun join :: "string \<Rightarrow> string list \<Rightarrow> string" where
  "join sep [] = []"
| "join sep [x] = x"
| "join sep (x # y # ys) = x @ sep @ join sep (y # ys)"

fun py_repr :: "pyval \<Rightarrow> string" where
  "py_repr (PyStr s) = str_repr s"
| "py_repr (PyInt i) = str_int i"
| "py_repr (PyList xs) = ''['' @ join '', '' (map py_repr xs) @ '']''"
| "py_repr (PyObj s r) = r"

fun py_str :: "pyval \<Rightarrow> string" where
  "py_str (PyStr s) = s"
| "py_str (PyInt i) = str_int i"
| "py_str (PyList xs) = py_repr (PyList xs)"
| "py_str (PyObj s r) = s"

text \<open>An embedding is a list of floats; no arithmetic is ever done on its entries.\<close>

type_synonym embedding = "real list"

text \<open>A \<^verbatim>\<open>Dict[str, Any]\<close>, and \<^verbatim>\<open>d[k]\<close> on it.\<close>

type_synonym pydict = "string \<rightharpoonup> pyval"

definition dict_getitem :: "(string \<rightharpoonup> 'v) \<Rightarrow> string \<Rightarrow> ('s, 'v) py" where
  "dict_getitem d k = (case d k of None \<Rightarrow> raise (PyKeyError k) | Some v \<Rightarrow> ret v)"

text \<open>\<^verbatim>\<open>xs[0]\<close>\<close>

definition list_getitem0 :: "'a list \<Rightarrow> ('s, 'a) py" where
  "list_getitem0 xs =
     (case xs of [] \<Rightarrow> raise (PyIndexError ''list index out of range'') | x # _ \<Rightarrow> ret x)"

section \<open>The external services\<close>

text \<open>
  The OpenAI, Pinecone and Gemini clients are collaborators outside the repository.
  They are a parameter of every function: a record of operations over an arbitrary
  world \<open>'w\<close>, each of which may raise and may change the world, so that two calls with
  the same arguments may answer differently. The first three operations are the
  constructors of the clients, given the API key; \<open>pinecone_index\<close> is
  \<^verbatim>\<open>pinecone_client.Index(name)\<close>. \<open>embeddings_create\<close> returns the \<^verbatim>\<open>embedding\<close> fields of
  \<^verbatim>\<open>response.data\<close>.
\<close>

record 'w services =
  new_pinecone :: "string option \<Rightarrow> 'w \<Rightarrow> (py_error + unit) \<times> 'w"
  new_genai :: "string option \<Rightarrow> 'w \<Rightarrow> (py_error + unit) \<times> 'w"
  new_openai :: "string option \<Rightarrow> 'w \<Rightarrow> (py_error + unit) \<times> 'w"
  pinecone_index :: "string \<Rightarrow> 'w \<Rightarrow> (py_error + unit) \<times> 'w"
  embeddings_create :: "pyval list \<Rightarrow> string \<Rightarrow> 'w \<Rightarrow> (py_error + embedding list) \<times> 'w"
  list_indexes_names :: "'w \<Rightarrow> (py_error + string list) \<times> 'w"
  create_index :: "string \<Rightarrow> nat \<Rightarrow> string \<Rightarrow> string \<times> string \<Rightarrow> 'w \<Rightarrow> (py_error + unit) \<times> 'w"
  index_query :: "embedding \<Rightarrow> nat \<Rightarrow> bool \<Rightarrow> 'w \<Rightarrow> (py_error + pydict) \<times> 'w"
  generate_content :: "string \<Rightarrow> string \<Rightarrow> 'w \<Rightarrow> (py_error + string) \<times> 'w"

text \<open>The calls a program issues are logged in the order it issues them.\<close>

datatype call =
    NewPinecone "string option"
  | NewGenai "string option"
  | NewOpenAI "string option"
  | PineconeIndex string
  | EmbeddingsCreate "pyval list" string
  | ListIndexes
  | CreateIndex string nat string "string \<times> string"
  | IndexQuery embedding nat bool
  | GenerateContent string string

record 'w base =
  world :: 'w
  calls :: "call list"

definition call_service ::
  "call \<Rightarrow> ('w \<Rightarrow> (py_error + 'a) \<times> 'w) \<Rightarrow> (('w, 'z) base_scheme, 'a) py" where
  "call_service c f = (\<lambda>s. case f (world s) of
     (r, w') \<Rightarrow> (r, s\<lparr>world := w', calls := calls s @ [c]\<rparr>))"

section \<open>app.py\<close>

definition PINECONE_INDEX_NAME :: string where
  "PINECONE_INDEX_NAME = ''ukmegashop-faq''"

definition EMBEDDING_MODEL :: string where
  "EMBEDDING_MODEL = ''text-embedding-3-small''"

definition GEMINI_MODEL :: string where
  "GEMINI_MODEL = ''gemini-2.0-flash''"

text \<open>What Streamlit has drawn, in order; the two loading animations are named after
  their captions.\<close>

datatype markup = FetchingContext | SynthesizingContext | Text string

datatype ui_event =
    StError string
  | ChatMarkdown string string
  | PlaceholderEmpty
  | PlaceholderMarkdown markup

record turn =
  role :: string
  content :: string

text \<open>\<open>messages\<close> is \<^verbatim>\<open>st.session_state.messages\<close>; \<open>None\<close> when the key is not in the
  session state. \<open>main\<close> creates the history before it reads or extends it, so the
  branches for \<open>None\<close> of \<open>messages_append\<close> and \<open>display_history\<close> below are never
  taken in a run of \<open>main\<close>.\<close>

record 'w app_state = "'w base" +
  ui :: "ui_event list"
  messages :: "turn list option"

definition st_error :: "string \<Rightarrow> ('w app_state, unit) py" where
  "st_error msg = (\<lambda>s. (Inr (), s\<lparr>ui := ui s @ [StError msg]\<rparr>))"

definition draw :: "ui_event \<Rightarrow> ('w app_state, unit) py" where
  "draw ev = (\<lambda>s. (Inr (), s\<lparr>ui := ui s @ [ev]\<rparr>))"

definition messages_append :: "turn \<Rightarrow> ('w app_state, unit) py" where
  "messages_append t = (\<lambda>s. case messages s of
       None \<Rightarrow> (Inl (PyException ''st.session_state has no attribute messages''), s)
     | Some ms \<Rightarrow> (Inr (), s\<lparr>messages := Some (ms @ [t])\<rparr>))"

definition app_get_embeddings ::
  "string \<Rightarrow> 'w services \<Rightarrow> string \<Rightarrow> ('w app_state, embedding) py" where
  "app_get_embeddings text client model =
     try_except
       (bind (call_service (EmbeddingsCreate [PyStr text] model)
                (embeddings_create client [PyStr text] model))
          (\<lambda>data. list_getitem0 data))
       (\<lambda>e. bind (st_error (''Error generating embeddings: '' @ exc_str e)) (\<lambda>_. ret []))"

definition query_pinecone ::
  "'w services \<Rightarrow> embedding \<Rightarrow> nat \<Rightarrow> ('w app_state, pydict) py" where
  "query_pinecone index query_embedding top_k =
     try_except
       (call_service (IndexQuery query_embedding top_k True)
          (index_query index query_embedding top_k True))
       (\<lambda>e. bind (st_error (''Error querying Pinecone: '' @ exc_str e))
          (\<lambda>_. ret [''matches'' \<mapsto> PyList []]))"

text \<open>The f-string of \<open>generate_response\<close>, given the value of \<^verbatim>\<open>context['matches']\<close>.\<close>

definition prompt :: "string \<Rightarrow> pyval \<Rightarrow> string" where
  "prompt input_text matches =
     ''You are a customer support chatbot for UK Mega Shop. ''
     @ ''User query: '' @ input_text @ '', Retrieved Context: '' @ py_str matches @ ''. ''
     @ ''Now answer the user query using the context.''"

definition apology :: string where
  "apology = ''Sorry, I couldn't process your request at this time.''"

definition generate_response ::
  "'w services \<Rightarrow> string \<Rightarrow> pydict \<Rightarrow> ('w app_state, string) py" where
  "generate_response google_client input_text context =
     bind (dict_getitem context ''matches'')
       (\<lambda>matches.
          try_except
            (call_service (GenerateContent GEMINI_MODEL (prompt input_text matches))
               (generate_content google_client GEMINI_MODEL (prompt input_text matches)))
            (\<lambda>e. bind (st_error (''Error generating response: '' @ exc_str e))
               (\<lambda>_. ret apology)))"

text \<open>\<open>load_config\<close> reads three environment variables; \<^verbatim>\<open>os.getenv\<close> gives \<^verbatim>\<open>None\<close>
  for a variable that is not set.\<close>

record config =
  pinecone_api_key :: "string option"
  google_api_key :: "string option"
  openai_api_key :: "string option"

definition load_config :: "(string \<rightharpoonup> string) \<Rightarrow> config" where
  "load_config env =
     \<lparr>pinecone_api_key = env ''PINECONE_API_KEY'',
      google_api_key = env ''GOOGLE_API_KEY'',
      openai_api_key = env ''OPENAI_API_KEY''\<rparr>"

text \<open>\<open>initialize_clients\<close> builds the three clients, in the order of the source. Line 82 of
  \<open>main\<close> then asks the Pinecone client for the handle of the index. Both lines stand
  outside any \<^verbatim>\<open>try\<close>; \<open>build_clients\<close> is the two of them. The record \<open>clients\<close> stands for
  the clients and the handle they give.\<close>

definition initialize_clients :: "'w services \<Rightarrow> config \<Rightarrow> ('w app_state, unit) py" where
  "initialize_clients clients config =
     bind (call_service (NewPinecone (pinecone_api_key config))
             (new_pinecone clients (pinecone_api_key config))) (\<lambda>_.
     bind (call_service (NewGenai (google_api_key config))
             (new_genai clients (google_api_key config))) (\<lambda>_.
       call_service (NewOpenAI (openai_api_key config))
         (new_openai clients (openai_api_key config))))"

definition build_clients :: "'w services \<Rightarrow> config \<Rightarrow> ('w app_state, unit) py" where
  "build_clients clients config =
     bind (initialize_clients clients config) (\<lambda>_.
       call_service (PineconeIndex PINECONE_INDEX_NAME)
         (pinecone_index clients PINECONE_INDEX_NAME))"

text \<open>Truth value of an \<^verbatim>\<open>Optional[str]\<close>: \<^verbatim>\<open>None\<close> and the empty string are false.\<close>

definition truthy :: "string option \<Rightarrow> bool" where
  "truthy v = (case v of None \<Rightarrow> False | Some t \<Rightarrow> t \<noteq> [])"

definition all_config_values :: "config \<Rightarrow> bool" where
  "all_config_values c =
     (truthy (pinecone_api_key c) \<and> truthy (google_api_key c) \<and> truthy (openai_api_key c))"

definition seed_messages :: "turn list" where
  "seed_messages =
     [\<lparr>role = ''human'', content = ''Does the website offer Cash on Delivery (COD)''\<rparr>,
      \<lparr>role = ''ai'', content = ''Thanks for your query! Currently, we do not offer Cash on Delivery (COD) on our website. However, we are considering implementing it in the future.''\<rparr>]"

text \<open>Lines 85 to 88 of \<open>main\<close>: the history is created and seeded once per session.\<close>

definition init_history :: "('w app_state, unit) py" where
  "init_history = (\<lambda>s. case messages s of
       None \<Rightarrow> (Inr (), s\<lparr>messages := Some seed_messages\<rparr>)
     | Some _ \<Rightarrow> (Inr (), s))"

text \<open>Lines 91 to 93: every message of the history is drawn.\<close>

definition display_history :: "('w app_state, unit) py" where
  "display_history = (\<lambda>s. case messages s of
       None \<Rightarrow> (Inl (PyException ''st.session_state has no attribute messages''), s)
     | Some ms \<Rightarrow> (Inr (), s\<lparr>ui := ui s @ map (\<lambda>m. ChatMarkdown (role m) (content m)) ms\<rparr>))"

text \<open>Lines 97 to 158: the body of \<^verbatim>\<open>if user_input := st.chat_input(...)\<close>.\<close>

definition handle_user_input :: "'w services \<Rightarrow> string \<Rightarrow> ('w app_state, unit) py" where
  "handle_user_input clients user_input =
     bind (draw (ChatMarkdown ''human'' user_input)) (\<lambda>_.
     bind (messages_append \<lparr>role = ''human'', content = user_input\<rparr>) (\<lambda>_.
     bind (draw PlaceholderEmpty) (\<lambda>_.
     bind (draw (PlaceholderMarkdown FetchingContext)) (\<lambda>_.
     bind (app_get_embeddings user_input clients EMBEDDING_MODEL) (\<lambda>query_embedding.
       if query_embedding \<noteq> [] then
         bind (query_pinecone clients query_embedding 2) (\<lambda>query_result.
         bind (draw (PlaceholderMarkdown SynthesizingContext)) (\<lambda>_.
         bind (generate_response clients user_input query_result) (\<lambda>response.
         bind (draw (PlaceholderMarkdown (Text response))) (\<lambda>_.
           messages_append \<lparr>role = ''ai'', content = response\<rparr>))))
       else ret ())))))"

text \<open>One run of the script: Streamlit runs \<open>main\<close> once per page load and once per
  message typed (\<open>chat_input\<close> is then the message, otherwise \<^verbatim>\<open>None\<close>). When building the
  clients or the handle raises, the run ends there, before the history is touched.\<close>

definition app_main ::
  "'w services \<Rightarrow> (string \<rightharpoonup> string) \<Rightarrow> string option \<Rightarrow> ('w app_state, unit) py" where
  "app_main clients env chat_input =
     (if \<not> all_config_values (load_config env)
      then st_error ''Missing API keys. Please set them in your environment variables.''
      else
        bind (build_clients clients (load_config env)) (\<lambda>_.
        bind init_history (\<lambda>_.
        bind display_history (\<lambda>_.
          if truthy chat_input then handle_user_input clients (the chat_input) else ret ()))))"

text \<open>A session is a sequence of runs over the same session state. A run that ends in an
  uncaught exception leaves the state it reached; the next run starts from it.\<close>

fun run_session ::
  "'w services \<Rightarrow> (string \<rightharpoonup> string) \<Rightarrow> string option list \<Rightarrow> 'w app_state \<Rightarrow> 'w app_state" where
  "run_session clients env [] s = s"
| "run_session clients env (i # inputs) s = run_session clients env inputs (snd (app_main clients env i s))"

definition roles_within :: "string list \<Rightarrow> turn list option \<Rightarrow> bool" where
  "roles_within rs history = (case history of None \<Rightarrow> True | Some ms \<Rightarrow> list_all (\<lambda>t. role t \<in> set rs) ms)"

text \<open>The value \<open>get_embeddings\<close> of \<^verbatim>\<open>app.py\<close> hands back for a reply of the embedding
  service: the first embedding of the reply, and the empty list when the call raised or
  the reply holds no data.\<close>

definition embedding_or_empty :: "py_error + embedding list \<Rightarrow> embedding" where
  "embedding_or_empty reply = (case reply of Inl e \<Rightarrow> [] | Inr [] \<Rightarrow> [] | Inr (d # ds) \<Rightarrow> d)"

text \<open>The error notice \<open>get_embeddings\<close> of \<^verbatim>\<open>app.py\<close> shows for a reply: one notice when
  the call raised or \<^verbatim>\<open>response.data[0]\<close> raised, none otherwise.\<close>

definition embed_notice :: "py_error + embedding list \<Rightarrow> ui_event list" where
  "embed_notice reply =
     (case reply of
        Inl e \<Rightarrow> [StError (''Error generating embeddings: '' @ exc_str e)]
      | Inr [] \<Rightarrow> [StError ''Error generating embeddings: list index out of range'']
      | Inr (d # ds) \<Rightarrow> [])"

text \<open>An operation keeps the roles of the history within \<^verbatim>\<open>human\<close> and \<^verbatim>\<open>ai\<close>.\<close>

definition keeps_roles :: "('w app_state, 'a) py \<Rightarrow> bool" where
  "keeps_roles m = (\<forall>s. roles_within [''human'', ''ai''] (messages s)
                        \<longrightarrow> roles_within [''human'', ''ai''] (messages (snd (m s))))"

section \<open>data_ingestion.py\<close>

definition INDEX_NAME :: string where
  "INDEX_NAME = ''ukmegashop-faq''"

definition EMBEDDING_DIMENSION :: nat where
  "EMBEDDING_DIMENSION = 1536"

definition METRIC :: string where
  "METRIC = ''cosine''"

definition CLOUD_PROVIDER :: string where
  "CLOUD_PROVIDER = ''aws''"

definition REGION :: string where
  "REGION = ''us-east-1''"

record 'w ingestion_state = "'w base" +
  stdout :: "string list"

definition print :: "string \<Rightarrow> ('w ingestion_state, unit) py" where
  "print line = (\<lambda>s. (Inr (), s\<lparr>stdout := stdout s @ [line]\<rparr>))"

text \<open>The embedder of the batch loader has no handler.\<close>

definition ingestion_get_embeddings ::
  "'w services \<Rightarrow> pyval \<Rightarrow> string \<Rightarrow> ('w ingestion_state, embedding) py" where
  "ingestion_get_embeddings openai_client text model =
     bind (call_service (EmbeddingsCreate [text] model) (embeddings_create openai_client [text] model))
       (\<lambda>data. list_getitem0 data)"

definition create_pinecone_index :: "'w services \<Rightarrow> ('w ingestion_state, unit) py" where
  "create_pinecone_index pinecone_client =
     bind (call_service ListIndexes (list_indexes_names pinecone_client)) (\<lambda>names.
       if INDEX_NAME \<notin> set names then
         bind (call_service (CreateIndex INDEX_NAME EMBEDDING_DIMENSION METRIC (CLOUD_PROVIDER, REGION))
                 (create_index pinecone_client INDEX_NAME EMBEDDING_DIMENSION METRIC (CLOUD_PROVIDER, REGION)))
           (\<lambda>_. print (''Created Pinecone index: '' @ INDEX_NAME))
       else print (''Index '' @ INDEX_NAME @ '' already exists.''))"

text \<open>A data frame, as \<open>prepare_vectors\<close> receives it, is the list of its rows, each with
  its index label; a row maps a column name to the cell. Labels and cells are the
  values \<^verbatim>\<open>pd.read_csv\<close> made of the file, of any type. \<open>default_index n\<close> is the labels
  of a frame of \<open>n\<close> rows that has pandas' default index, \<open>0, 1, ...\<close>.\<close>

type_synonym row = "string \<rightharpoonup> pyval"
type_synonym dataframe = "(pyval \<times> row) list"

definition default_index :: "nat \<Rightarrow> pyval list" where
  "default_index n = map (\<lambda>i. PyInt (int i)) [0 ..< n]"

record metadata =
  question :: pyval
  answer :: pyval

record vector =
  id' :: string
  values' :: embedding
  metadata :: metadata

text \<open>The loop of \<open>prepare_vectors\<close>, with the list \<open>vectors\<close> built so far.\<close>

fun prepare_vectors_loop ::
  "'w services \<Rightarrow> dataframe \<Rightarrow> vector list \<Rightarrow> ('w ingestion_state, vector list) py" where
  "prepare_vectors_loop openai_client [] vectors = ret vectors"
| "prepare_vectors_loop openai_client ((idx, row) # rest) vectors =
     bind (dict_getitem row ''Question'') (\<lambda>question.
     bind (dict_getitem row ''Answer'') (\<lambda>answer.
     bind (ingestion_get_embeddings openai_client question EMBEDDING_MODEL) (\<lambda>embedding.
       prepare_vectors_loop openai_client rest
         (vectors @ [\<lparr>id' = ''qa_'' @ py_str idx, values' = embedding,
                      metadata = \<lparr>question = question, answer = answer\<rparr>\<rparr>]))))"

definition prepare_vectors :: "'w services \<Rightarrow> dataframe \<Rightarrow> ('w ingestion_state, vector list) py" where
  "prepare_vectors openai_client df = prepare_vectors_loop openai_client df []"

text \<open>Reading a decimal numeral back, as \<^verbatim>\<open>int(s)\<close> does; it shows that different labels
  print differently.\<close>

definition nat_of_str :: "string \<Rightarrow> nat" where
  "nat_of_str cs = foldl (\<lambda>n c. 10 * n + (of_char c - 48)) 0 cs"

text \<open>The embedding service answers the question of every row of the frame, in turn,
  with at least one embedding.\<close>

fun embeddings_available :: "'w services \<Rightarrow> dataframe \<Rightarrow> 'w \<Rightarrow> bool" where
  "embeddings_available client [] w = True"
| "embeddings_available client ((idx, row) # rest) w =
     (case row ''Question'' of
        None \<Rightarrow> False
      | Some q \<Rightarrow>
         (case embeddings_create client [q] EMBEDDING_MODEL w of
            (Inr (d # ds), w') \<Rightarrow> embeddings_available client rest w'
          | _ \<Rightarrow> False))"

text \<open>The embedding calls for the \<^verbatim>\<open>Question\<close> cells of a frame, in row order.\<close>

definition question_calls :: "dataframe \<Rightarrow> call list" where
  "question_calls df = concat (map (\<lambda>(idx, row).
     case row ''Question'' of None \<Rightarrow> [] | Some q \<Rightarrow> [EmbeddingsCreate [q] EMBEDDING_MODEL]) df)"

section \<open>A simulated deployment\<close>

text \<open>A concrete world on which the definitions can be run: each service is up or down,
  and the vector database holds the names of its indexes.\<close>

record sim_world =
  embed_down :: bool
  query_down :: bool
  gemini_down :: bool
  index_names :: "string list"

definition sim_services :: "sim_world services" where
  "sim_services =
     \<lparr>new_pinecone = (\<lambda>key w. (Inr (), w)),
      new_genai = (\<lambda>key w. (Inr (), w)),
      new_openai = (\<lambda>key w. (Inr (), w)),
      pinecone_index = (\<lambda>name w. (Inr (), w)),
      embeddings_create = (\<lambda>input model w.
        if embed_down w then (Inl (PyException ''embedding service unavailable''), w)
        else (Inr (map (\<lambda>t. [1, 2, 3]) input), w)),
      list_indexes_names = (\<lambda>w. (Inr (index_names w), w)),
      create_index = (\<lambda>name dimension metric spec w.
        if name \<in> set (index_names w) then (Inl (PyException ''ALREADY_EXISTS''), w)
        else (Inr (), w\<lparr>index_names := index_names w @ [name]\<rparr>)),
      index_query = (\<lambda>v top_k include_metadata w.
        if query_down w then (Inl (PyException ''index unavailable''), w)
        else (Inr [''matches'' \<mapsto> PyList (take top_k [PyObj ''m0'' ''m0'', PyObj ''m1'' ''m1'', PyObj ''m2'' ''m2''])], w)),
      generate_content = (\<lambda>model contents w.
        if gemini_down w then (Inl (PyException ''model unavailable''), w)
        else (Inr ''We ship worldwide.'', w))\<rparr>"

definition sim_env :: "string \<rightharpoonup> string" where
  "sim_env = [''PINECONE_API_KEY'' \<mapsto> ''pk'', ''GOOGLE_API_KEY'' \<mapsto> ''gk'', ''OPENAI_API_KEY'' \<mapsto> ''ok'']"

definition sim_up :: sim_world where
  "sim_up = \<lparr>embed_down = False, query_down = False, gemini_down = False, index_names = []\<rparr>"

definition fresh_session :: "sim_world \<Rightarrow> sim_world app_state" where
  "fresh_session w = \<lparr>world = w, calls = [], ui = [], messages = None\<rparr>"

definition fresh_batch :: "sim_world \<Rightarrow> sim_world ingestion_state" where
  "fresh_batch w = \<lparr>world = w, calls = [], stdout = []\<rparr>"

text \<open>The same deployment with an index whose reply to a query holds no key at all.\<close>

definition sim_services_bare :: "sim_world services" where
  "sim_services_bare = sim_services\<lparr>index_query := (\<lambda>v top_k include_metadata w. (Inr Map.empty, w))\<rparr>"

text \<open>The frame of the two-row file of the end-to-end scenario.\<close>

definition faq_frame :: dataframe where
  "faq_frame =
     [(PyInt 0, [''Question'' \<mapsto> PyStr ''Do you ship internationally?'',
                 ''Answer'' \<mapsto> PyStr ''Yes, worldwide.'']),
      (PyInt 1, [''Question'' \<mapsto> PyStr ''What is your return policy?'',
                 ''Answer'' \<mapsto> PyStr ''30 days.''])]"

section \<open>What each operation returns\<close>

text \<open>Each operation of \<^verbatim>\<open>app.py\<close> unfolded into a case distinction on what the service
  answered.\<close>

lemma app_get_embeddings_result:
  "app_get_embeddings text client model s =
     (case embeddings_create client [PyStr text] model (world s) of
        (Inr (d # ds), w') \<Rightarrow>
          (Inr d, s\<lparr>world := w', calls := calls s @ [EmbeddingsCreate [PyStr text] model]\<rparr>)
      | (Inr [], w') \<Rightarrow>
          (Inr [], s\<lparr>world := w', calls := calls s @ [EmbeddingsCreate [PyStr text] model],
             ui := ui s @ [StError (''Error generating embeddings: list index out of range'')]\<rparr>)
      | (Inl e, w') \<Rightarrow>
          (Inr [], s\<lparr>world := w', calls := calls s @ [EmbeddingsCreate [PyStr text] model],
             ui := ui s @ [StError (''Error generating embeddings: '' @ exc_str e)]\<rparr>))"
  by (simp add: app_get_embeddings_def try_except_def bind_def call_service_def st_error_def
      ret_def raise_def list_getitem0_def split: prod.splits sum.splits list.splits)

lemma query_pinecone_result:
  "query_pinecone index v k s =
     (case index_query index v k True (world s) of
        (Inr r, w') \<Rightarrow> (Inr r, s\<lparr>world := w', calls := calls s @ [IndexQuery v k True]\<rparr>)
      | (Inl e, w') \<Rightarrow>
          (Inr [''matches'' \<mapsto> PyList []],
           s\<lparr>world := w', calls := calls s @ [IndexQuery v k True],
             ui := ui s @ [StError (''Error querying Pinecone: '' @ exc_str e)]\<rparr>))"
  by (simp add: query_pinecone_def try_except_def bind_def call_service_def st_error_def
      ret_def split: prod.splits sum.splits)

lemma generate_response_result:
  "generate_response g input_text context s =
     (case context ''matches'' of
        None \<Rightarrow> (Inl (PyKeyError ''matches''), s)
      | Some m \<Rightarrow>
         (case generate_content g GEMINI_MODEL (prompt input_text m) (world s) of
            (Inr t, w') \<Rightarrow>
              (Inr t, s\<lparr>world := w',
                 calls := calls s @ [GenerateContent GEMINI_MODEL (prompt input_text m)]\<rparr>)
          | (Inl e, w') \<Rightarrow>
              (Inr apology, s\<lparr>world := w',
                 calls := calls s @ [GenerateContent GEMINI_MODEL (prompt input_text m)],
                 ui := ui s @ [StError (''Error generating response: '' @ exc_str e)]\<rparr>)))"
  by (simp add: generate_response_def dict_getitem_def try_except_def bind_def call_service_def
      st_error_def ret_def raise_def split: prod.splits sum.splits option.splits)

lemma ingestion_get_embeddings_result:
  "ingestion_get_embeddings client text model t =
     (case embeddings_create client [text] model (world t) of
        (Inr (d # ds), w') \<Rightarrow>
          (Inr d, t\<lparr>world := w', calls := calls t @ [EmbeddingsCreate [text] model]\<rparr>)
      | (Inr [], w') \<Rightarrow>
          (Inl (PyIndexError ''list index out of range''),
           t\<lparr>world := w', calls := calls t @ [EmbeddingsCreate [text] model]\<rparr>)
      | (Inl e, w') \<Rightarrow>
          (Inl e, t\<lparr>world := w', calls := calls t @ [EmbeddingsCreate [text] model]\<rparr>))"
  by (simp add: ingestion_get_embeddings_def bind_def call_service_def
      ret_def raise_def list_getitem0_def split: prod.splits sum.splits list.splits)

lemma generate_response_returns:
  "''matches'' \<in> dom context \<Longrightarrow>
     \<exists>response. fst (generate_response google_client input_text context u) = Inr response"
  by (auto simp: generate_response_result split: prod.splits sum.splits)

lemma draw_apply: "draw ev s = (Inr (), s\<lparr>ui := ui s @ [ev]\<rparr>)"
  by (simp add: draw_def)

lemma messages_append_apply:
  "messages s = Some ms \<Longrightarrow> messages_append t s = (Inr (), s\<lparr>messages := Some (ms @ [t])\<rparr>)"
  by (simp add: messages_append_def)

lemma bind_apply:
  "bind m f s = (case m s of (Inl e, s') \<Rightarrow> (Inl e, s') | (Inr x, s') \<Rightarrow> f x s')"
  by (simp add: bind_def)

lemma call_service_frame:
  "ui (snd (call_service c f s)) = ui s \<and> messages (snd (call_service c f s)) = messages s"
  by (simp add: call_service_def split: prod.splits)

lemma build_clients_frame:
  "ui (snd (build_clients clients config s)) = ui s
   \<and> messages (snd (build_clients clients config s)) = messages s"
proof -
  have step: "ui (snd (bind m f s)) = ui s \<and> messages (snd (bind m f s)) = messages s"
    if "\<And>s. ui (snd (m s)) = ui s \<and> messages (snd (m s)) = messages s"
      and "\<And>x s. ui (snd (f x s)) = ui s \<and> messages (snd (f x s)) = messages s"
    for m :: "('a app_state, 'b) py" and f :: "'b \<Rightarrow> ('a app_state, 'c) py" and s
  proof (cases "m s")
    case (Pair r s1)
    with that(1) [of s] have 1: "ui s1 = ui s \<and> messages s1 = messages s" by simp
    show ?thesis
    proof (cases r)
      case (Inl e)
      with Pair 1 show ?thesis by (simp add: bind_apply)
    next
      case (Inr x)
      with Pair 1 that(2) [of x s1] show ?thesis by (simp add: bind_apply)
    qed
  qed
  show ?thesis
    unfolding build_clients_def initialize_clients_def
    by (intro step call_service_frame)
qed

lemma app_main_with_input:
  assumes "all_config_values (load_config env)" and "user_input \<noteq> []"
    and "build_clients clients (load_config env) s = (Inr (), s0)"
  shows "app_main clients env (Some user_input) s =
     handle_user_input clients user_input
       (s0\<lparr>ui := ui s @ map (\<lambda>m. ChatMarkdown (role m) (content m))
                   (case messages s of None \<Rightarrow> seed_messages | Some ms \<Rightarrow> ms),
          messages := Some (case messages s of None \<Rightarrow> seed_messages | Some ms \<Rightarrow> ms)\<rparr>)"
proof -
  from build_clients_frame [of clients "load_config env" s] assms(3)
  have f: "ui s0 = ui s" "messages s0 = messages s" by simp_all
  show ?thesis
    using assms f
    by (cases s0; cases "messages s")
       (simp_all add: app_main_def bind_apply init_history_def display_history_def truthy_def)
qed

lemma app_get_embeddings_value:
  "\<exists>s'. app_get_embeddings text client model s =
      (Inr (embedding_or_empty (fst (embeddings_create client [PyStr text] model (world s)))), s')
    \<and> messages s' = messages s
    \<and> world s' = snd (embeddings_create client [PyStr text] model (world s))
    \<and> calls s' = calls s @ [EmbeddingsCreate [PyStr text] model]
    \<and> ui s' = ui s @ embed_notice (fst (embeddings_create client [PyStr text] model (world s)))"
  by (auto simp: app_get_embeddings_result embedding_or_empty_def embed_notice_def
      split: prod.splits sum.splits list.splits)

lemma query_pinecone_value:
  assumes "\<And>r w'. index_query index v k True (world s) = (Inr r, w') \<Longrightarrow> ''matches'' \<in> dom r"
  shows "\<exists>context s'. query_pinecone index v k s = (Inr context, s')
           \<and> messages s' = messages s \<and> ''matches'' \<in> dom context"
proof -
  obtain r w' where q: "index_query index v k True (world s) = (r, w')"
    by (cases "index_query index v k True (world s)")
  show ?thesis
  proof (cases r)
    case (Inl e)
    with q show ?thesis by (simp add: query_pinecone_result)
  next
    case (Inr c)
    with q assms have "''matches'' \<in> dom c" by simp
    with q Inr show ?thesis by (simp add: query_pinecone_result)
  qed
qed

lemma generate_response_value:
  assumes "''matches'' \<in> dom context"
  shows "\<exists>response s'. generate_response g input_text context s = (Inr response, s')
           \<and> messages s' = messages s"
proof -
  from assms obtain m where m: "context ''matches'' = Some m" by auto
  obtain r w' where q: "generate_content g GEMINI_MODEL (prompt input_text m) (world s) = (r, w')"
    by (cases "generate_content g GEMINI_MODEL (prompt input_text m) (world s)")
  show ?thesis
    using m q by (cases r) (simp_all add: generate_response_result)
qed

section \<open>The embedders\<close>

text \<open>
  Claim C1, as amended. When the embedding call raises, the query-time embedder of
  \<^verbatim>\<open>app.py\<close> does not propagate the exception: it shows the error and returns the empty
  list. The ingestion-time embedder of \<^verbatim>\<open>data_ingestion.py\<close> has no handler: the same
  exception reaches its caller, and nothing is returned.
\<close>

theorem C1_embedders_on_error:
  assumes "embeddings_create client [PyStr text] model w = (Inl e, w')"
    and "world s = w" and "world t = w"
  shows "app_get_embeddings text client model s =
           (Inr [], s\<lparr>world := w', calls := calls s @ [EmbeddingsCreate [PyStr text] model],
              ui := ui s @ [StError (''Error generating embeddings: '' @ exc_str e)]\<rparr>)
       \<and> ingestion_get_embeddings client (PyStr text) model t =
           (Inl e, t\<lparr>world := w', calls := calls t @ [EmbeddingsCreate [PyStr text] model]\<rparr>)"
  using assms by (simp add: app_get_embeddings_result ingestion_get_embeddings_result)

theorem C1_embedders_on_error_witness:
  "app_get_embeddings ''Do you ship?'' sim_services EMBEDDING_MODEL
       (fresh_session (sim_up\<lparr>embed_down := True\<rparr>)) =
     (Inr [], \<lparr>world = sim_up\<lparr>embed_down := True\<rparr>,
        calls = [EmbeddingsCreate [PyStr ''Do you ship?''] EMBEDDING_MODEL],
        ui = [StError ''Error generating embeddings: embedding service unavailable''],
        messages = None\<rparr>)
   \<and> ingestion_get_embeddings sim_services (PyStr ''Do you ship?'') EMBEDDING_MODEL
       (fresh_batch (sim_up\<lparr>embed_down := True\<rparr>)) =
     (Inl (PyException ''embedding service unavailable''),
      \<lparr>world = sim_up\<lparr>embed_down := True\<rparr>,
        calls = [EmbeddingsCreate [PyStr ''Do you ship?''] EMBEDDING_MODEL], stdout = []\<rparr>)"
  using C1_embedders_on_error [of sim_services "''Do you ship?''" EMBEDDING_MODEL
      "sim_up\<lparr>embed_down := True\<rparr>" "PyException ''embedding service unavailable''"
      "sim_up\<lparr>embed_down := True\<rparr>" "fresh_session (sim_up\<lparr>embed_down := True\<rparr>)"
      "fresh_batch (sim_up\<lparr>embed_down := True\<rparr>)"]
  by (simp add: sim_services_def sim_up_def fresh_session_def fresh_batch_def)

text \<open>The claim as written (both embedders return the empty list) fails for the ingestion
  script: with the embedding service down its embedder raises.\<close>

theorem C1_ingestion_embedder_propagates:
  "fst (ingestion_get_embeddings sim_services (PyStr ''Do you ship?'') EMBEDDING_MODEL
          (fresh_batch (sim_up\<lparr>embed_down := True\<rparr>)))
   = Inl (PyException ''embedding service unavailable'')"
  by (simp add: ingestion_get_embeddings_result sim_services_def fresh_batch_def sim_up_def)

section \<open>The answer generator\<close>

text \<open>
  Claim C6. For every query text and every value of \<^verbatim>\<open>context['matches']\<close>, the prompt that
  \<open>generate_response\<close> sends to the model contains the query text and the printed matches
  as contiguous substrings.
\<close>

theorem C6_prompt_contains_query_and_matches:
  assumes "context ''matches'' = Some matches"
  shows "calls (snd (generate_response google_client input_text context s)) =
           calls s @ [GenerateContent GEMINI_MODEL (prompt input_text matches)]
       \<and> sublist input_text (prompt input_text matches)
       \<and> sublist (py_str matches) (prompt input_text matches)"
proof -
  have "sublist input_text (prompt input_text matches)"
    unfolding prompt_def by (metis append.assoc sublist_appendI)
  moreover have "sublist (py_str matches) (prompt input_text matches)"
    unfolding prompt_def by (metis append.assoc sublist_appendI)
  moreover have "calls (snd (generate_response google_client input_text context s)) =
           calls s @ [GenerateContent GEMINI_MODEL (prompt input_text matches)]"
    using assms by (simp add: generate_response_result split: prod.splits sum.splits)
  ultimately show ?thesis by blast
qed

theorem C6_prompt_contains_query_and_matches_witness:
  "calls (snd (generate_response sim_services ''Do you ship?''
       [''matches'' \<mapsto> PyList [PyObj ''m0'' ''m0'']] (fresh_session sim_up))) =
     [GenerateContent GEMINI_MODEL
        ''You are a customer support chatbot for UK Mega Shop. User query: Do you ship?, Retrieved Context: [m0]. Now answer the user query using the context.'']
   \<and> sublist ''Do you ship?''
        ''You are a customer support chatbot for UK Mega Shop. User query: Do you ship?, Retrieved Context: [m0]. Now answer the user query using the context.''
   \<and> sublist ''[m0]''
        ''You are a customer support chatbot for UK Mega Shop. User query: Do you ship?, Retrieved Context: [m0]. Now answer the user query using the context.''"
proof -
  have p: "prompt ''Do you ship?'' (PyList [PyObj ''m0'' ''m0'']) =
      ''You are a customer support chatbot for UK Mega Shop. User query: Do you ship?, Retrieved Context: [m0]. Now answer the user query using the context.''"
    by (simp add: prompt_def)
  have s: "py_str (PyList [PyObj ''m0'' ''m0'']) = ''[m0]''" by simp
  have c: "calls (fresh_session sim_up) = []" by (simp add: fresh_session_def)
  show ?thesis
    using C6_prompt_contains_query_and_matches [of "[''matches'' \<mapsto> PyList [PyObj ''m0'' ''m0'']]"
        "PyList [PyObj ''m0'' ''m0'']" sim_services "''Do you ship?''" "fresh_session sim_up"]
    unfolding p s c by simp
qed

text \<open>
  Claim C7. When the call to the generation model raises, \<open>generate_response\<close> returns the
  fixed apology instead of raising, after showing the error. (The call is only made
  once the prompt is built, hence for a context that has the key \<^verbatim>\<open>matches\<close>.)
\<close>

theorem C7_generation_failure_gives_apology:
  assumes "context ''matches'' = Some matches"
    and "generate_content google_client GEMINI_MODEL (prompt input_text matches) (world s) = (Inl e, w')"
  shows "generate_response google_client input_text context s =
           (Inr ''Sorry, I couldn't process your request at this time.'',
            s\<lparr>world := w',
              calls := calls s @ [GenerateContent GEMINI_MODEL (prompt input_text matches)],
              ui := ui s @ [StError (''Error generating response: '' @ exc_str e)]\<rparr>)"
  using assms by (simp add: generate_response_result apology_def)

theorem C7_generation_failure_gives_apology_witness:
  "fst (generate_response sim_services ''Do you ship?'' [''matches'' \<mapsto> PyList []]
          (fresh_session (sim_up\<lparr>gemini_down := True\<rparr>)))
   = Inr ''Sorry, I couldn't process your request at this time.''"
  using C7_generation_failure_gives_apology [of "[''matches'' \<mapsto> PyList []]" "PyList []"
      sim_services "''Do you ship?''" "fresh_session (sim_up\<lparr>gemini_down := True\<rparr>)"
      "PyException ''model unavailable''" "sim_up\<lparr>gemini_down := True\<rparr>"]
  by (simp add: sim_services_def sim_up_def fresh_session_def)

section \<open>The index reader\<close>

text \<open>
  Claim C9, as amended. \<open>query_pinecone\<close> never raises. When the query of the index
  succeeds, it returns the reply of the index as it is, unchecked. When the query
  raises, it shows the error and returns the literal \<^verbatim>\<open>{"matches": []}\<close>.
  \<open>generate_response\<close> returns for every context that has the key \<^verbatim>\<open>matches\<close>, and raises
  \<^verbatim>\<open>KeyError('matches')\<close> for every context that lacks it. So the lookup
  \<^verbatim>\<open>context['matches']\<close> never fails on the failure path, and on the success path it
  succeeds exactly when the reply of the index has the key.
\<close>

theorem C9_query_result_and_matches:
  "(\<forall>r w'. index_query index query_embedding top_k True (world s) = (Inr r, w') \<longrightarrow>
      query_pinecone index query_embedding top_k s =
        (Inr r, s\<lparr>world := w', calls := calls s @ [IndexQuery query_embedding top_k True]\<rparr>))
   \<and> (\<forall>e w'. index_query index query_embedding top_k True (world s) = (Inl e, w') \<longrightarrow>
      query_pinecone index query_embedding top_k s =
        (Inr [''matches'' \<mapsto> PyList []],
         s\<lparr>world := w', calls := calls s @ [IndexQuery query_embedding top_k True],
           ui := ui s @ [StError (''Error querying Pinecone: '' @ exc_str e)]\<rparr>))
   \<and> (\<forall>context input_text u.
        (''matches'' \<in> dom context \<longrightarrow>
           (\<exists>response. fst (generate_response google_client input_text context u) = Inr response))
      \<and> (''matches'' \<notin> dom context \<longrightarrow>
           generate_response google_client input_text context u = (Inl (PyKeyError ''matches''), u)))"
proof -
  have "generate_response google_client input_text c u = (Inl (PyKeyError ''matches''), u)"
    if "''matches'' \<notin> dom c" for c input_text u
  proof -
    from that have "c ''matches'' = None" by auto
    then show ?thesis by (simp add: generate_response_result)
  qed
  then show ?thesis
    by (simp add: query_pinecone_result generate_response_returns)
qed

theorem C9_query_result_and_matches_witness:
  "query_pinecone sim_services [1, 2, 3] 2 (fresh_session sim_up) =
     (Inr [''matches'' \<mapsto> PyList [PyObj ''m0'' ''m0'', PyObj ''m1'' ''m1'']],
      \<lparr>world = sim_up, calls = [IndexQuery [1, 2, 3] 2 True], ui = [], messages = None\<rparr>)
   \<and> query_pinecone sim_services [1, 2, 3] 2 (fresh_session (sim_up\<lparr>query_down := True\<rparr>)) =
     (Inr [''matches'' \<mapsto> PyList []],
      \<lparr>world = sim_up\<lparr>query_down := True\<rparr>, calls = [IndexQuery [1, 2, 3] 2 True],
        ui = [StError ''Error querying Pinecone: index unavailable''], messages = None\<rparr>)
   \<and> (\<exists>response. fst (generate_response sim_services ''Do you ship?''
          [''matches'' \<mapsto> PyList []] (fresh_session sim_up)) = Inr response)
   \<and> generate_response sim_services ''Do you ship?'' Map.empty (fresh_session sim_up)
       = (Inl (PyKeyError ''matches''), fresh_session sim_up)"
proof -
  have up: "index_query sim_services [1, 2, 3] 2 True (world (fresh_session sim_up)) =
      (Inr [''matches'' \<mapsto> PyList [PyObj ''m0'' ''m0'', PyObj ''m1'' ''m1'']], sim_up)"
    by (simp add: sim_services_def fresh_session_def sim_up_def numeral_2_eq_2)
  have down: "index_query sim_services [1, 2, 3] 2 True
        (world (fresh_session (sim_up\<lparr>query_down := True\<rparr>))) =
      (Inl (PyException ''index unavailable''), sim_up\<lparr>query_down := True\<rparr>)"
    by (simp add: sim_services_def fresh_session_def sim_up_def)
  have 1: "''matches'' \<in> dom [''matches'' \<mapsto> PyList []]" by simp
  have 2: "''matches'' \<notin> dom (Map.empty :: pydict)" by simp
  from C9_query_result_and_matches [of sim_services "[1, 2, 3]" 2 "fresh_session sim_up" sim_services]
    up 1 2
  have a: "query_pinecone sim_services [1, 2, 3] 2 (fresh_session sim_up) =
     (Inr [''matches'' \<mapsto> PyList [PyObj ''m0'' ''m0'', PyObj ''m1'' ''m1'']],
      (fresh_session sim_up)\<lparr>world := sim_up,
         calls := calls (fresh_session sim_up) @ [IndexQuery [1, 2, 3] 2 True]\<rparr>)"
    and c: "\<exists>response. fst (generate_response sim_services ''Do you ship?''
          [''matches'' \<mapsto> PyList []] (fresh_session sim_up)) = Inr response"
    and d: "generate_response sim_services ''Do you ship?'' Map.empty (fresh_session sim_up)
       = (Inl (PyKeyError ''matches''), fresh_session sim_up)"
    by blast+
  from C9_query_result_and_matches [of sim_services "[1, 2, 3]" 2
      "fresh_session (sim_up\<lparr>query_down := True\<rparr>)" sim_services] down
  have b: "query_pinecone sim_services [1, 2, 3] 2 (fresh_session (sim_up\<lparr>query_down := True\<rparr>)) =
     (Inr [''matches'' \<mapsto> PyList []],
      (fresh_session (sim_up\<lparr>query_down := True\<rparr>))\<lparr>world := sim_up\<lparr>query_down := True\<rparr>,
         calls := calls (fresh_session (sim_up\<lparr>query_down := True\<rparr>)) @ [IndexQuery [1, 2, 3] 2 True],
         ui := ui (fresh_session (sim_up\<lparr>query_down := True\<rparr>))
               @ [StError (''Error querying Pinecone: '' @ exc_str (PyException ''index unavailable''))]\<rparr>)"
    by blast
  from a b c d show ?thesis
    by (simp add: fresh_session_def)
qed

section \<open>The session\<close>

lemma sim_build_clients:
  "build_clients sim_services (load_config sim_env) (fresh_session w) =
     (Inr (), \<lparr>world = w,
        calls = [NewPinecone (Some ''pk''), NewGenai (Some ''gk''), NewOpenAI (Some ''ok''),
                 PineconeIndex PINECONE_INDEX_NAME],
        ui = [], messages = None\<rparr>)"
  by (simp add: build_clients_def initialize_clients_def call_service_def bind_apply
      sim_services_def load_config_def sim_env_def fresh_session_def)

lemma sim_keys: "all_config_values (load_config sim_env)"
  by (simp add: all_config_values_def load_config_def sim_env_def truthy_def)

lemma query_pinecone_frame:
  "\<exists>s'. query_pinecone index v k s =
       (Inr (case fst (index_query index v k True (world s)) of
               Inl e \<Rightarrow> [''matches'' \<mapsto> PyList []] | Inr c \<Rightarrow> c), s')
     \<and> messages s' = messages s \<and> calls s' = calls s @ [IndexQuery v k True]"
  by (auto simp: query_pinecone_result split: prod.splits sum.splits)

lemma generate_response_frame:
  assumes "c ''matches'' = Some m"
  shows "\<exists>response s'. generate_response g t c s = (Inr response, s')
     \<and> messages s' = messages s
     \<and> calls s' = calls s @ [GenerateContent GEMINI_MODEL (prompt t m)]"
proof -
  obtain r w' where q: "generate_content g GEMINI_MODEL (prompt t m) (world s) = (r, w')"
    by (cases "generate_content g GEMINI_MODEL (prompt t m) (world s)")
  show ?thesis
    using assms q by (cases r) (simp_all add: generate_response_result)
qed

text \<open>
  Claim C3. In every run in which the clients are built, the embedder gave a non-empty
  vector and the query of the index raises, the generator is still called, with the
  prompt built from the empty match list, and exactly one \<^verbatim>\<open>ai\<close> turn follows the \<^verbatim>\<open>human\<close>
  turn in the history: the run ends normally.
\<close>

theorem C3_retrieval_failure_still_answers:
  assumes "all_config_values (load_config env)" and "user_input \<noteq> []"
    and "build_clients clients (load_config env) s = (Inr (), s0)"
    and "embeddings_create clients [PyStr user_input] EMBEDDING_MODEL (world s0)
           = (Inr (query_embedding # ds), w1)"
    and "query_embedding \<noteq> []"
    and "index_query clients query_embedding 2 True w1 = (Inl e, w2)"
  shows "\<exists>response s'. app_main clients env (Some user_input) s = (Inr (), s')
     \<and> calls s' = calls s0 @
          [EmbeddingsCreate [PyStr user_input] EMBEDDING_MODEL,
           IndexQuery query_embedding 2 True,
           GenerateContent GEMINI_MODEL (prompt user_input (PyList []))]
     \<and> messages s' = Some ((case messages s of None \<Rightarrow> seed_messages | Some ms \<Rightarrow> ms)
          @ [\<lparr>role = ''human'', content = user_input\<rparr>, \<lparr>role = ''ai'', content = response\<rparr>])"
proof -
  obtain r w3 where g: "generate_content clients GEMINI_MODEL (prompt user_input (PyList [])) w2 = (r, w3)"
    by (cases "generate_content clients GEMINI_MODEL (prompt user_input (PyList [])) w2")
  show ?thesis
    using assms g unfolding app_main_with_input [OF assms(1,2,3)]
    by (cases r)
       (simp_all add: handle_user_input_def bind_apply draw_apply messages_append_apply
          app_get_embeddings_result query_pinecone_result generate_response_result)
qed

theorem C3_retrieval_failure_still_answers_witness:
  "\<exists>response s'.
      app_main sim_services sim_env (Some ''Do you ship?'')
        (fresh_session (sim_up\<lparr>query_down := True\<rparr>)) = (Inr (), s')
    \<and> calls s' =
         [NewPinecone (Some ''pk''), NewGenai (Some ''gk''), NewOpenAI (Some ''ok''),
          PineconeIndex PINECONE_INDEX_NAME,
          EmbeddingsCreate [PyStr ''Do you ship?''] EMBEDDING_MODEL,
          IndexQuery [1, 2, 3] 2 True,
          GenerateContent GEMINI_MODEL (prompt ''Do you ship?'' (PyList []))]
    \<and> messages s' = Some (seed_messages
         @ [\<lparr>role = ''human'', content = ''Do you ship?''\<rparr>, \<lparr>role = ''ai'', content = response\<rparr>])"
  using C3_retrieval_failure_still_answers [of sim_env "''Do you ship?''" sim_services
      "fresh_session (sim_up\<lparr>query_down := True\<rparr>)" _ "[1, 2, 3]" "[]"
      "sim_up\<lparr>query_down := True\<rparr>" "PyException ''index unavailable''"
      "sim_up\<lparr>query_down := True\<rparr>", OF sim_keys _ sim_build_clients]
  by (simp add: sim_services_def sim_up_def fresh_session_def)

text \<open>
  Claim C2, as amended. Take any run that handles a message: the keys are set, the
  clients and the index handle are built, and the message is not empty. The message is
  appended to the history as a \<^verbatim>\<open>human\<close> turn, and then:

  \<^item> if the embedder returns the empty list (the embedding call raised, or its reply
    held no vector or an empty one), the guard \<^verbatim>\<open>if query_embedding:\<close> skips the rest:
    the run ends normally with no call to the index or the generator, no \<^verbatim>\<open>ai\<close> turn
    appended, and the loading animation as the last content of the placeholder,
    followed only by the error notice of the embedder when it showed one;

  \<^item> if the embedder returns a non-empty vector, and the query of the index raises
    or its reply has the key \<^verbatim>\<open>matches\<close>, the run ends normally with exactly one \<^verbatim>\<open>ai\<close>
    turn appended after the \<^verbatim>\<open>human\<close> turn and the answer drawn last, whether or not
    the retrieval or the generation failed;

  \<^item> if the embedder returns a non-empty vector and the reply of the index lacks the
    key \<^verbatim>\<open>matches\<close>, the lookup \<^verbatim>\<open>context['matches']\<close> raises \<^verbatim>\<open>KeyError\<close> out of \<open>main\<close> before
    the generator is called, and no \<^verbatim>\<open>ai\<close> turn is appended.
\<close>

theorem C2_turn_outcomes:
  assumes "all_config_values (load_config env)" and "user_input \<noteq> []"
    and "build_clients clients (load_config env) s = (Inr (), s0)"
    and "history = (case messages s of None \<Rightarrow> seed_messages | Some ms \<Rightarrow> ms)"
    and "embeddings_create clients [PyStr user_input] EMBEDDING_MODEL (world s0) = (reply, w1)"
    and "index_query clients (embedding_or_empty reply) 2 True w1 = (found, w2)"
  shows "\<exists>outcome s'. app_main clients env (Some user_input) s = (outcome, s')
     \<and> (embedding_or_empty reply = [] \<longrightarrow>
           outcome = Inr ()
         \<and> messages s' = Some (history @ [\<lparr>role = ''human'', content = user_input\<rparr>])
         \<and> calls s' = calls s0 @ [EmbeddingsCreate [PyStr user_input] EMBEDDING_MODEL]
         \<and> ui s' = ui s @ map (\<lambda>m. ChatMarkdown (role m) (content m)) history
              @ [ChatMarkdown ''human'' user_input, PlaceholderEmpty,
                 PlaceholderMarkdown FetchingContext]
              @ embed_notice reply)
     \<and> (embedding_or_empty reply \<noteq> [] \<and> (\<forall>c. found = Inr c \<longrightarrow> ''matches'' \<in> dom c) \<longrightarrow>
           outcome = Inr ()
         \<and> (\<exists>response p.
               messages s' = Some (history @ [\<lparr>role = ''human'', content = user_input\<rparr>,
                                               \<lparr>role = ''ai'', content = response\<rparr>])
             \<and> last (ui s') = PlaceholderMarkdown (Text response)
             \<and> calls s' = calls s0 @
                  [EmbeddingsCreate [PyStr user_input] EMBEDDING_MODEL,
                   IndexQuery (embedding_or_empty reply) 2 True,
                   GenerateContent GEMINI_MODEL p]))
     \<and> (embedding_or_empty reply \<noteq> [] \<and> (\<exists>c. found = Inr c \<and> ''matches'' \<notin> dom c) \<longrightarrow>
           outcome = Inl (PyKeyError ''matches'')
         \<and> messages s' = Some (history @ [\<lparr>role = ''human'', content = user_input\<rparr>])
         \<and> calls s' = calls s0 @
              [EmbeddingsCreate [PyStr user_input] EMBEDDING_MODEL,
               IndexQuery (embedding_or_empty reply) 2 True])"
proof -
  let ?qe = "embedding_or_empty reply"
  let ?human = "\<lparr>role = ''human'', content = user_input\<rparr>"
  let ?sA = "s0\<lparr>ui := ui s @ map (\<lambda>m. ChatMarkdown (role m) (content m)) history,
                 messages := Some history\<rparr>"
  let ?s1 = "?sA\<lparr>ui := ui ?sA @ [ChatMarkdown ''human'' user_input]\<rparr>"
  let ?s2 = "?s1\<lparr>messages := Some (history @ [?human])\<rparr>"
  let ?s3 = "?s2\<lparr>ui := ui ?s2 @ [PlaceholderEmpty]\<rparr>"
  let ?s4 = "?s3\<lparr>ui := ui ?s3 @ [PlaceholderMarkdown FetchingContext]\<rparr>"
  have w4: "world ?s4 = world s0" by simp
  from app_get_embeddings_value [of user_input clients EMBEDDING_MODEL ?s4]
  obtain s5 where e: "app_get_embeddings user_input clients EMBEDDING_MODEL ?s4 = (Inr ?qe, s5)"
    and m5: "messages s5 = Some (history @ [?human])"
    and w5: "world s5 = w1"
    and c5: "calls s5 = calls s0 @ [EmbeddingsCreate [PyStr user_input] EMBEDDING_MODEL]"
    and u5: "ui s5 = ui s @ map (\<lambda>m. ChatMarkdown (role m) (content m)) history
              @ [ChatMarkdown ''human'' user_input, PlaceholderEmpty,
                 PlaceholderMarkdown FetchingContext] @ embed_notice reply"
    unfolding w4 assms(5) by auto
  have main: "app_main clients env (Some user_input) s =
      (if ?qe \<noteq> [] then
         bind (query_pinecone clients ?qe 2) (\<lambda>query_result.
         bind (draw (PlaceholderMarkdown SynthesizingContext)) (\<lambda>_.
         bind (generate_response clients user_input query_result) (\<lambda>response.
         bind (draw (PlaceholderMarkdown (Text response))) (\<lambda>_.
           messages_append \<lparr>role = ''ai'', content = response\<rparr>)))) s5
       else (Inr (), s5))"
    unfolding app_main_with_input [OF assms(1,2,3)] handle_user_input_def assms(4) [symmetric]
    using e by (simp add: bind_apply draw_apply messages_append_apply ret_def)
  show ?thesis
  proof (cases "?qe = []")
    case True
    with main m5 c5 u5 show ?thesis by simp
  next
    case False
    let ?c = "case found of Inl e \<Rightarrow> [''matches'' \<mapsto> PyList []] | Inr c \<Rightarrow> c"
    from query_pinecone_frame [of clients ?qe 2 s5]
    obtain s6 where qp: "query_pinecone clients ?qe 2 s5 = (Inr ?c, s6)"
      and m6: "messages s6 = messages s5"
      and c6: "calls s6 = calls s5 @ [IndexQuery ?qe 2 True]"
      unfolding w5 assms(6) by auto
    let ?s7 = "s6\<lparr>ui := ui s6 @ [PlaceholderMarkdown SynthesizingContext]\<rparr>"
    show ?thesis
    proof (cases "?c ''matches''")
      case None
      then have lacks: "\<exists>c. found = Inr c \<and> ''matches'' \<notin> dom c"
        by (cases found) auto
      from None have g: "generate_response clients user_input ?c ?s7 = (Inl (PyKeyError ''matches''), ?s7)"
        by (simp add: generate_response_result)
      have "app_main clients env (Some user_input) s = (Inl (PyKeyError ''matches''), ?s7)"
        using False main qp g by (simp add: bind_apply draw_apply)
      moreover have "messages ?s7 = Some (history @ [?human])" using m5 m6 by simp
      moreover have "calls ?s7 = calls s0 @
              [EmbeddingsCreate [PyStr user_input] EMBEDDING_MODEL, IndexQuery ?qe 2 True]"
        using c5 c6 by simp
      ultimately show ?thesis using False lacks by auto
    next
      case (Some m)
      then have has: "\<forall>c. found = Inr c \<longrightarrow> ''matches'' \<in> dom c"
        by (cases found) auto
      from generate_response_frame [where c = ?c and m = m and g = clients and t = user_input
          and s = ?s7, OF Some]
      obtain response s8 where g: "generate_response clients user_input ?c ?s7 = (Inr response, s8)"
        and m8: "messages s8 = messages ?s7"
        and c8: "calls s8 = calls ?s7 @ [GenerateContent GEMINI_MODEL (prompt user_input m)]"
        by blast
      let ?s9 = "s8\<lparr>ui := ui s8 @ [PlaceholderMarkdown (Text response)],
           messages := Some (history @ [?human, \<lparr>role = ''ai'', content = response\<rparr>])\<rparr>"
      have "app_main clients env (Some user_input) s = (Inr (), ?s9)"
        using False main qp g m5 m6 m8
        by (simp add: bind_apply draw_apply messages_append_apply)
      moreover have "messages ?s9 = Some (history @ [?human, \<lparr>role = ''ai'', content = response\<rparr>])"
        by simp
      moreover have "last (ui ?s9) = PlaceholderMarkdown (Text response)" by simp
      moreover have "calls ?s9 = calls s0 @
                  [EmbeddingsCreate [PyStr user_input] EMBEDDING_MODEL,
                   IndexQuery ?qe 2 True,
                   GenerateContent GEMINI_MODEL (prompt user_input m)]"
        using c5 c6 c8 by simp
      ultimately show ?thesis using False has by auto
    qed
  qed
qed

theorem C2_turn_outcomes_witness:
  "(\<exists>s'. app_main sim_services sim_env (Some ''Do you ship?'')
            (fresh_session (sim_up\<lparr>embed_down := True\<rparr>)) = (Inr (), s')
      \<and> messages s' = Some (seed_messages @ [\<lparr>role = ''human'', content = ''Do you ship?''\<rparr>])
      \<and> calls s' = [NewPinecone (Some ''pk''), NewGenai (Some ''gk''), NewOpenAI (Some ''ok''),
                    PineconeIndex PINECONE_INDEX_NAME,
                    EmbeddingsCreate [PyStr ''Do you ship?''] EMBEDDING_MODEL]
      \<and> last (ui s') = StError ''Error generating embeddings: embedding service unavailable'')
   \<and> (\<exists>s' response.
        app_main sim_services sim_env (Some ''Do you ship?'')
            (fresh_session (sim_up\<lparr>gemini_down := True\<rparr>)) = (Inr (), s')
      \<and> messages s' = Some (seed_messages
           @ [\<lparr>role = ''human'', content = ''Do you ship?''\<rparr>, \<lparr>role = ''ai'', content = response\<rparr>])
      \<and> last (ui s') = PlaceholderMarkdown (Text response))
   \<and> (\<exists>s'. app_main sim_services_bare sim_env (Some ''Do you ship?'') (fresh_session sim_up)
            = (Inl (PyKeyError ''matches''), s')
      \<and> messages s' = Some (seed_messages @ [\<lparr>role = ''human'', content = ''Do you ship?''\<rparr>]))"
proof -
  let ?down = "sim_up\<lparr>embed_down := True\<rparr>"
  let ?mute = "sim_up\<lparr>gemini_down := True\<rparr>"
  let ?built = "\<lambda>w. \<lparr>world = w,
        calls = [NewPinecone (Some ''pk''), NewGenai (Some ''gk''), NewOpenAI (Some ''ok''),
                 PineconeIndex PINECONE_INDEX_NAME],
        ui = [], messages = None\<rparr> :: sim_world app_state"
  have n: "''Do you ship?'' \<noteq> []" by simp
  have h: "seed_messages = (case messages (fresh_session w) of None \<Rightarrow> seed_messages | Some ms \<Rightarrow> ms)"
    for w by (simp add: fresh_session_def)
  have e1: "embeddings_create sim_services [PyStr ''Do you ship?''] EMBEDDING_MODEL (world (?built ?down))
      = (Inl (PyException ''embedding service unavailable''), ?down)"
    by (simp add: sim_services_def sim_up_def)
  have q1: "index_query sim_services
        (embedding_or_empty (Inl (PyException ''embedding service unavailable''))) 2 True ?down
      = (Inr [''matches'' \<mapsto> PyList [PyObj ''m0'' ''m0'', PyObj ''m1'' ''m1'']], ?down)"
    by (simp add: sim_services_def sim_up_def numeral_2_eq_2)
  have 1: "\<exists>s'. app_main sim_services sim_env (Some ''Do you ship?'') (fresh_session ?down) = (Inr (), s')
      \<and> messages s' = Some (seed_messages @ [\<lparr>role = ''human'', content = ''Do you ship?''\<rparr>])
      \<and> calls s' = [NewPinecone (Some ''pk''), NewGenai (Some ''gk''), NewOpenAI (Some ''ok''),
                    PineconeIndex PINECONE_INDEX_NAME,
                    EmbeddingsCreate [PyStr ''Do you ship?''] EMBEDDING_MODEL]
      \<and> last (ui s') = StError ''Error generating embeddings: embedding service unavailable''"
    using C2_turn_outcomes [OF sim_keys n sim_build_clients h e1 q1]
    by (auto simp: embedding_or_empty_def embed_notice_def)
  have e2: "embeddings_create sim_services [PyStr ''Do you ship?''] EMBEDDING_MODEL (world (?built ?mute))
      = (Inr [[1, 2, 3]], ?mute)"
    by (simp add: sim_services_def sim_up_def)
  have q2: "index_query sim_services (embedding_or_empty (Inr [[1, 2, 3]])) 2 True ?mute
      = (Inr [''matches'' \<mapsto> PyList [PyObj ''m0'' ''m0'', PyObj ''m1'' ''m1'']], ?mute)"
    by (simp add: sim_services_def sim_up_def numeral_2_eq_2)
  have 2: "\<exists>s' response.
        app_main sim_services sim_env (Some ''Do you ship?'') (fresh_session ?mute) = (Inr (), s')
      \<and> messages s' = Some (seed_messages
           @ [\<lparr>role = ''human'', content = ''Do you ship?''\<rparr>, \<lparr>role = ''ai'', content = response\<rparr>])
      \<and> last (ui s') = PlaceholderMarkdown (Text response)"
    using C2_turn_outcomes [OF sim_keys n sim_build_clients h e2 q2]
    by (auto simp: embedding_or_empty_def)
  have bare_build: "build_clients sim_services_bare (load_config sim_env) (fresh_session sim_up) =
     (Inr (), ?built sim_up)"
    by (simp add: build_clients_def initialize_clients_def call_service_def bind_apply
        sim_services_bare_def sim_services_def load_config_def sim_env_def fresh_session_def)
  have e3: "embeddings_create sim_services_bare [PyStr ''Do you ship?''] EMBEDDING_MODEL
        (world (?built sim_up)) = (Inr [[1, 2, 3]], sim_up)"
    by (simp add: sim_services_bare_def sim_services_def sim_up_def)
  have q3: "index_query sim_services_bare (embedding_or_empty (Inr [[1, 2, 3]])) 2 True sim_up
      = (Inr Map.empty, sim_up)"
    by (simp add: sim_services_bare_def sim_services_def)
  have 3: "\<exists>s'. app_main sim_services_bare sim_env (Some ''Do you ship?'') (fresh_session sim_up)
            = (Inl (PyKeyError ''matches''), s')
      \<and> messages s' = Some (seed_messages @ [\<lparr>role = ''human'', content = ''Do you ship?''\<rparr>])"
    using C2_turn_outcomes [OF sim_keys n bare_build h e3 q3]
    by (auto simp: embedding_or_empty_def)
  from 1 2 3 show ?thesis by (intro conjI)
qed

text \<open>The claim as written fails when the embedding service is down: the run ends with
  the loading animation still shown and the history ending in the \<^verbatim>\<open>human\<close> turn.\<close>

theorem C2_no_assistant_turn_when_embedding_fails:
  "fst (app_main sim_services sim_env (Some ''Do you ship?'')
          (fresh_session (sim_up\<lparr>embed_down := True\<rparr>))) = Inr ()
   \<and> messages (snd (app_main sim_services sim_env (Some ''Do you ship?'')
          (fresh_session (sim_up\<lparr>embed_down := True\<rparr>))))
       = Some (seed_messages @ [\<lparr>role = ''human'', content = ''Do you ship?''\<rparr>])
   \<and> ui (snd (app_main sim_services sim_env (Some ''Do you ship?'')
          (fresh_session (sim_up\<lparr>embed_down := True\<rparr>))))
       = [ChatMarkdown ''human'' ''Does the website offer Cash on Delivery (COD)'',
          ChatMarkdown ''ai'' ''Thanks for your query! Currently, we do not offer Cash on Delivery (COD) on our website. However, we are considering implementing it in the future.'',
          ChatMarkdown ''human'' ''Do you ship?'', PlaceholderEmpty,
          PlaceholderMarkdown FetchingContext,
          StError ''Error generating embeddings: embedding service unavailable'']"
  by (simp add: app_main_def build_clients_def initialize_clients_def call_service_def
      handle_user_input_def bind_apply init_history_def
      display_history_def draw_apply messages_append_def app_get_embeddings_result ret_def
      all_config_values_def load_config_def sim_env_def truthy_def
      sim_services_def fresh_session_def sim_up_def seed_messages_def)

text \<open>That the result of \<open>query_pinecone\<close> has the key \<^verbatim>\<open>matches\<close> on every path fails for an
  index whose reply to a successful query lacks the key: \<open>query_pinecone\<close> hands the reply
  back, and the lookup in \<open>generate_response\<close> raises \<^verbatim>\<open>KeyError\<close> out of \<open>main\<close>.\<close>

theorem C9_reply_without_matches:
  "\<not> isl (fst (query_pinecone sim_services_bare [1, 2, 3] 2 (fresh_session sim_up)))
   \<and> ''matches'' \<notin> dom (projr (fst (query_pinecone sim_services_bare [1, 2, 3] 2
                                        (fresh_session sim_up))))
   \<and> fst (app_main sim_services_bare sim_env (Some ''Do you ship?'') (fresh_session sim_up))
       = Inl (PyKeyError ''matches'')"
  by (simp add: app_main_def build_clients_def initialize_clients_def call_service_def
      handle_user_input_def bind_apply init_history_def
      display_history_def draw_apply messages_append_def app_get_embeddings_result ret_def
      query_pinecone_result generate_response_result
      all_config_values_def load_config_def sim_env_def truthy_def
      sim_services_bare_def sim_services_def fresh_session_def sim_up_def)

subsection \<open>Roles\<close>

lemma keeps_ret: "keeps_roles (ret x)"
  by (simp add: keeps_roles_def ret_def)

lemma keeps_raise: "keeps_roles (raise e)"
  by (simp add: keeps_roles_def raise_def)

lemma keeps_bind: "keeps_roles m \<Longrightarrow> (\<And>x. keeps_roles (f x)) \<Longrightarrow> keeps_roles (bind m f)"
  unfolding keeps_roles_def bind_def
  by (auto split: prod.splits sum.splits)

lemma keeps_try_except:
  "keeps_roles m \<Longrightarrow> (\<And>e. keeps_roles (h e)) \<Longrightarrow> keeps_roles (try_except m h)"
  unfolding keeps_roles_def try_except_def
  by (auto split: prod.splits sum.splits)

lemma keeps_if: "keeps_roles m \<Longrightarrow> keeps_roles n \<Longrightarrow> keeps_roles (if b then m else n)"
  by simp

lemma keeps_draw: "keeps_roles (draw ev)"
  by (simp add: keeps_roles_def draw_def)

lemma keeps_st_error: "keeps_roles (st_error msg)"
  by (simp add: keeps_roles_def st_error_def)

lemma keeps_call_service: "keeps_roles (call_service c f)"
  by (simp add: keeps_roles_def call_service_def split: prod.splits)

lemma keeps_dict_getitem: "keeps_roles (dict_getitem d k)"
  by (simp add: dict_getitem_def keeps_ret keeps_raise split: option.splits)

lemma keeps_list_getitem0: "keeps_roles (list_getitem0 xs)"
  by (simp add: list_getitem0_def keeps_ret keeps_raise split: list.splits)

lemma keeps_messages_append:
  "role t = ''human'' \<or> role t = ''ai'' \<Longrightarrow> keeps_roles (messages_append t)"
  by (auto simp: keeps_roles_def messages_append_def roles_within_def split: option.splits)

lemma keeps_init_history: "keeps_roles init_history"
  by (simp add: keeps_roles_def init_history_def roles_within_def seed_messages_def
      split: option.splits)

lemma keeps_display_history: "keeps_roles display_history"
  by (simp add: keeps_roles_def display_history_def split: option.splits)

lemma keeps_handle_user_input: "keeps_roles (handle_user_input clients user_input)"
  unfolding handle_user_input_def app_get_embeddings_def query_pinecone_def generate_response_def
  by (intro keeps_bind keeps_if keeps_try_except keeps_draw keeps_st_error keeps_call_service
      keeps_dict_getitem keeps_list_getitem0 keeps_messages_append keeps_ret) simp_all

lemma keeps_app_main: "keeps_roles (app_main clients env chat_input)"
  unfolding app_main_def build_clients_def initialize_clients_def
  by (intro keeps_bind keeps_if keeps_st_error keeps_init_history keeps_display_history
      keeps_handle_user_input keeps_ret keeps_call_service)

text \<open>
  Claim C8, as amended. Every turn of the history, the seed pair and every turn
  appended in any sequence of runs, has the role \<^verbatim>\<open>human\<close> (the user) or \<^verbatim>\<open>ai\<close> (the
  assistant); these two strings are the role names the code stores.
\<close>

theorem C8_roles_are_human_or_ai:
  assumes "roles_within [''human'', ''ai''] (messages s)"
  shows "roles_within [''human'', ''ai''] (messages (run_session clients env inputs s))"
  using assms
proof (induction inputs arbitrary: s)
  case Nil
  then show ?case by simp
next
  case (Cons i inputs)
  from Cons.prems keeps_app_main [of clients env i]
  have "roles_within [''human'', ''ai''] (messages (snd (app_main clients env i s)))"
    by (simp add: keeps_roles_def)
  then show ?case by (simp add: Cons.IH)
qed

theorem C8_roles_are_human_or_ai_witness:
  "roles_within [''human'', ''ai'']
     (messages (run_session sim_services sim_env [None, Some ''Do you ship?'']
        (fresh_session sim_up)))"
proof -
  have "roles_within [''human'', ''ai''] (messages (fresh_session sim_up))"
    by (simp add: roles_within_def fresh_session_def)
  then show ?thesis by (rule C8_roles_are_human_or_ai)
qed

text \<open>The claim as written names the roles \<^verbatim>\<open>user\<close> and \<^verbatim>\<open>assistant\<close>; the first seed turn
  already has the role \<^verbatim>\<open>human\<close>.\<close>

theorem C8_seed_role_is_human:
  "messages (run_session sim_services sim_env [None] (fresh_session sim_up)) = Some seed_messages
   \<and> role (hd seed_messages) = ''human''
   \<and> \<not> roles_within [''user'', ''assistant'']
         (messages (run_session sim_services sim_env [None] (fresh_session sim_up)))"
  by (simp add: app_main_def build_clients_def initialize_clients_def call_service_def
      sim_services_def bind_apply init_history_def display_history_def ret_def
      all_config_values_def load_config_def sim_env_def truthy_def fresh_session_def
      roles_within_def seed_messages_def)

section \<open>The ingestion script\<close>

lemma digit_char_value: "d < 10 \<Longrightarrow> of_char (digit_char d) = 48 + d"
  by (simp add: digit_char_def)

lemma nat_of_str_snoc: "nat_of_str (cs @ [c]) = 10 * nat_of_str cs + (of_char c - 48)"
  by (simp add: nat_of_str_def)

lemma nat_of_str_str_nat: "nat_of_str (str_nat n) = n"
proof (induction n rule: str_nat.induct)
  case (1 n)
  show ?case
  proof (cases "n < 10")
    case True
    then show ?thesis
      by (subst str_nat.simps) (simp add: nat_of_str_def digit_char_value)
  next
    case False
    with 1 have "nat_of_str (str_nat (n div 10)) = n div 10" by simp
    with False show ?thesis
      by (subst str_nat.simps) (simp add: nat_of_str_snoc digit_char_value)
  qed
qed

lemma inj_str_nat: "inj str_nat"
  by (rule inj_on_inverseI [where g = nat_of_str]) (rule nat_of_str_str_nat)

lemma print_apply: "print line s = (Inr (), s\<lparr>stdout := stdout s @ [line]\<rparr>)"
  by (simp add: print_def)

lemma create_pinecone_index_result:
  "create_pinecone_index pc s =
     (case list_indexes_names pc (world s) of
        (Inl e, w1) \<Rightarrow> (Inl e, s\<lparr>world := w1, calls := calls s @ [ListIndexes]\<rparr>)
      | (Inr names, w1) \<Rightarrow>
          if INDEX_NAME \<in> set names
          then (Inr (), s\<lparr>world := w1, calls := calls s @ [ListIndexes],
                  stdout := stdout s @ [''Index '' @ INDEX_NAME @ '' already exists.'']\<rparr>)
          else (case create_index pc INDEX_NAME EMBEDDING_DIMENSION METRIC (CLOUD_PROVIDER, REGION) w1 of
              (Inl e, w2) \<Rightarrow>
                (Inl e, s\<lparr>world := w2, calls := calls s @ [ListIndexes,
                    CreateIndex INDEX_NAME EMBEDDING_DIMENSION METRIC (CLOUD_PROVIDER, REGION)]\<rparr>)
            | (Inr u, w2) \<Rightarrow>
                (Inr (), s\<lparr>world := w2, calls := calls s @ [ListIndexes,
                    CreateIndex INDEX_NAME EMBEDDING_DIMENSION METRIC (CLOUD_PROVIDER, REGION)],
                  stdout := stdout s @ [''Created Pinecone index: '' @ INDEX_NAME]\<rparr>)))"
  by (simp add: create_pinecone_index_def bind_apply call_service_def print_apply
      split: prod.splits sum.splits)

text \<open>
  Claim C5. When the name of the index is in the list the vector database returns,
  \<open>create_pinecone_index\<close> issues no create call and ends without an error. Hence two calls
  in succession, starting without the index and with the created index listed
  afterwards, issue exactly one create call, and the second call ends without an error.
\<close>

theorem C5_create_index_idempotent:
  "(\<forall>names w1.
      list_indexes_names pc (world s) = (Inr names, w1) \<and> INDEX_NAME \<in> set names \<longrightarrow>
      create_pinecone_index pc s =
        (Inr (), s\<lparr>world := w1, calls := calls s @ [ListIndexes],
           stdout := stdout s @ [''Index ukmegashop-faq already exists.'']\<rparr>))
   \<and> (\<forall>names0 w1 w2 names2 w3.
      list_indexes_names pc (world s) = (Inr names0, w1) \<and> INDEX_NAME \<notin> set names0
      \<and> create_index pc INDEX_NAME EMBEDDING_DIMENSION METRIC (CLOUD_PROVIDER, REGION) w1 = (Inr (), w2)
      \<and> list_indexes_names pc w2 = (Inr names2, w3) \<and> INDEX_NAME \<in> set names2 \<longrightarrow>
      bind (create_pinecone_index pc) (\<lambda>_. create_pinecone_index pc) s =
        (Inr (), s\<lparr>world := w3,
           calls := calls s @ [ListIndexes,
              CreateIndex INDEX_NAME EMBEDDING_DIMENSION METRIC (CLOUD_PROVIDER, REGION),
              ListIndexes],
           stdout := stdout s @ [''Created Pinecone index: ukmegashop-faq'',
              ''Index ukmegashop-faq already exists.'']\<rparr>))"
  by (simp add: bind_apply create_pinecone_index_result INDEX_NAME_def)

theorem C5_create_index_idempotent_witness:
  "create_pinecone_index sim_services (fresh_batch (sim_up\<lparr>index_names := [''ukmegashop-faq'']\<rparr>)) =
     (Inr (), \<lparr>world = sim_up\<lparr>index_names := [''ukmegashop-faq'']\<rparr>, calls = [ListIndexes],
        stdout = [''Index ukmegashop-faq already exists.'']\<rparr>)
   \<and> bind (create_pinecone_index sim_services) (\<lambda>_. create_pinecone_index sim_services)
       (fresh_batch sim_up) =
     (Inr (), \<lparr>world = sim_up\<lparr>index_names := [''ukmegashop-faq'']\<rparr>,
        calls = [ListIndexes, CreateIndex ''ukmegashop-faq'' 1536 ''cosine'' (''aws'', ''us-east-1''),
                 ListIndexes],
        stdout = [''Created Pinecone index: ukmegashop-faq'',
                  ''Index ukmegashop-faq already exists.'']\<rparr>)"
  using C5_create_index_idempotent [of sim_services
      "fresh_batch (sim_up\<lparr>index_names := [''ukmegashop-faq'']\<rparr>)"]
    C5_create_index_idempotent [of sim_services "fresh_batch sim_up"]
  by (simp add: sim_services_def sim_up_def fresh_batch_def INDEX_NAME_def
      EMBEDDING_DIMENSION_def METRIC_def CLOUD_PROVIDER_def REGION_def)

subsection \<open>The loop of \<open>prepare_vectors\<close>\<close>

text \<open>One round of the loop, by what the row holds and what the embedding service
  answers.\<close>

lemma prepare_vectors_loop_Cons:
  "prepare_vectors_loop client ((idx, row) # rest) acc s =
     (case row ''Question'' of
        None \<Rightarrow> (Inl (PyKeyError ''Question''), s)
      | Some q \<Rightarrow>
         (case row ''Answer'' of
            None \<Rightarrow> (Inl (PyKeyError ''Answer''), s)
          | Some a \<Rightarrow>
             (case embeddings_create client [q] EMBEDDING_MODEL (world s) of
                (Inl e, w') \<Rightarrow>
                  (Inl e, s\<lparr>world := w', calls := calls s @ [EmbeddingsCreate [q] EMBEDDING_MODEL]\<rparr>)
              | (Inr [], w') \<Rightarrow>
                  (Inl (PyIndexError ''list index out of range''),
                   s\<lparr>world := w', calls := calls s @ [EmbeddingsCreate [q] EMBEDDING_MODEL]\<rparr>)
              | (Inr (d # ds), w') \<Rightarrow>
                  prepare_vectors_loop client rest
                    (acc @ [\<lparr>id' = ''qa_'' @ py_str idx, values' = d,
                              metadata = \<lparr>question = q, answer = a\<rparr>\<rparr>])
                    (s\<lparr>world := w', calls := calls s @ [EmbeddingsCreate [q] EMBEDDING_MODEL]\<rparr>))))"
proof (cases "row ''Question''")
  case None
  then show ?thesis by (simp add: bind_apply dict_getitem_def raise_def)
next
  case (Some q)
  note q = this
  show ?thesis
  proof (cases "row ''Answer''")
    case None
    with q show ?thesis by (simp add: bind_apply dict_getitem_def raise_def ret_def)
  next
    case (Some a)
    note a = this
    obtain r w' where e: "embeddings_create client [q] EMBEDDING_MODEL (world s) = (r, w')"
      by (cases "embeddings_create client [q] EMBEDDING_MODEL (world s)")
    show ?thesis
    proof (cases r)
      case (Inl err)
      with q a e show ?thesis
        by (simp add: bind_apply dict_getitem_def ret_def ingestion_get_embeddings_result)
    next
      case (Inr data)
      with q a e show ?thesis
        by (cases data)
           (simp_all add: bind_apply dict_getitem_def ret_def ingestion_get_embeddings_result)
    qed
  qed
qed

lemma question_calls_Cons:
  "question_calls ((idx, row) # rest) =
     (case row ''Question'' of None \<Rightarrow> [] | Some q \<Rightarrow> [EmbeddingsCreate [q] EMBEDDING_MODEL])
     @ question_calls rest"
  by (simp add: question_calls_def)

lemma question_calls_Nil: "question_calls [] = []"
  by (simp add: question_calls_def)





lemma loop_step_embedded:
  "row ''Question'' = Some q \<Longrightarrow> row ''Answer'' = Some a \<Longrightarrow>
   embeddings_create client [q] EMBEDDING_MODEL (world s) = (Inr (d # ds), w') \<Longrightarrow>
   prepare_vectors_loop client ((idx, row) # rest) acc s =
     prepare_vectors_loop client rest
       (acc @ [\<lparr>id' = ''qa_'' @ py_str idx, values' = d,
                 metadata = \<lparr>question = q, answer = a\<rparr>\<rparr>])
       (s\<lparr>world := w', calls := calls s @ [EmbeddingsCreate [q] EMBEDDING_MODEL]\<rparr>)"
  by (subst prepare_vectors_loop_Cons) simp

lemma prepare_vectors_loop_returns:
  "prepare_vectors_loop client df acc s = (Inr vs, s') \<Longrightarrow>
     \<exists>new. vs = acc @ new
       \<and> map id' new = map (\<lambda>(idx, row). ''qa_'' @ py_str idx) df
       \<and> map (\<lambda>v. Some (question (metadata v))) new = map (\<lambda>(idx, row). row ''Question'') df
       \<and> map (\<lambda>v. Some (answer (metadata v))) new = map (\<lambda>(idx, row). row ''Answer'') df
       \<and> calls s' = calls s @ question_calls df"
proof (induction df arbitrary: acc s)
  case Nil
  then show ?case by (simp add: ret_def question_calls_Nil)
next
  case (Cons p rest)
  obtain idx row where p: "p = (idx, row)" by (cases p)
  from Cons.prems obtain q a d ds w' where
    q: "row ''Question'' = Some q" and a: "row ''Answer'' = Some a"
    and e: "embeddings_create client [q] EMBEDDING_MODEL (world s) = (Inr (d # ds), w')"
    and rec: "prepare_vectors_loop client rest
        (acc @ [\<lparr>id' = ''qa_'' @ py_str idx, values' = d, metadata = \<lparr>question = q, answer = a\<rparr>\<rparr>])
        (s\<lparr>world := w', calls := calls s @ [EmbeddingsCreate [q] EMBEDDING_MODEL]\<rparr>) = (Inr vs, s')"
    unfolding p prepare_vectors_loop_Cons
    by (auto split: option.splits prod.splits sum.splits list.splits)
  from Cons.IH [OF rec] obtain new where
    new: "vs = (acc @ [\<lparr>id' = ''qa_'' @ py_str idx, values' = d,
                        metadata = \<lparr>question = q, answer = a\<rparr>\<rparr>]) @ new"
    "map id' new = map (\<lambda>(idx, row). ''qa_'' @ py_str idx) rest"
    "map (\<lambda>v. Some (question (metadata v))) new = map (\<lambda>(idx, row). row ''Question'') rest"
    "map (\<lambda>v. Some (answer (metadata v))) new = map (\<lambda>(idx, row). row ''Answer'') rest"
    "calls s' = calls (s\<lparr>world := w', calls := calls s @ [EmbeddingsCreate [q] EMBEDDING_MODEL]\<rparr>)
        @ question_calls rest"
    by blast
  let ?v = "\<lparr>id' = ''qa_'' @ py_str idx, values' = d, metadata = \<lparr>question = q, answer = a\<rparr>\<rparr>"
  have "vs = acc @ (?v # new)" using new(1) by simp
  moreover have "map id' (?v # new) = map (\<lambda>(idx, row). ''qa_'' @ py_str idx) (p # rest)"
    using new(2) p by simp
  moreover have "map (\<lambda>v. Some (question (metadata v))) (?v # new)
      = map (\<lambda>(idx, row). row ''Question'') (p # rest)"
    using new(3) p q by simp
  moreover have "map (\<lambda>v. Some (answer (metadata v))) (?v # new)
      = map (\<lambda>(idx, row). row ''Answer'') (p # rest)"
    using new(4) p a by simp
  moreover have "calls s' = calls s @ question_calls (p # rest)"
    using new(5) p q by (simp add: question_calls_Cons)
  ultimately show ?case by blast
qed


lemma prepare_vectors_loop_total:
  assumes "\<forall>(idx, row) \<in> set df. ''Answer'' \<in> dom row"
    and "embeddings_available client df (world s)"
  shows "\<exists>vs s'. prepare_vectors_loop client df acc s = (Inr vs, s')"
  using assms
proof (induction df arbitrary: acc s)
  case Nil
  then show ?case by (simp add: ret_def)
next
  case (Cons p rest)
  obtain idx row where p: "p = (idx, row)" by (cases p)
  from Cons.prems(1) p obtain a where a: "row ''Answer'' = Some a" by auto
  from Cons.prems(2) obtain q where q: "row ''Question'' = Some q"
    unfolding p by (cases "row ''Question''") simp_all
  obtain r w' where e: "embeddings_create client [q] EMBEDDING_MODEL (world s) = (r, w')"
    by (cases "embeddings_create client [q] EMBEDDING_MODEL (world s)")
  from Cons.prems(2) q e obtain data where r: "r = Inr data"
    unfolding p by (cases r) simp_all
  from Cons.prems(2) q e r obtain d ds where data: "data = d # ds"
    unfolding p by (cases data) simp_all
  from Cons.prems(2) q e r data have rest: "embeddings_available client rest w'"
    unfolding p by simp
  from e r data have e': "embeddings_create client [q] EMBEDDING_MODEL (world s) = (Inr (d # ds), w')"
    by simp
  let ?s1 = "s\<lparr>world := w', calls := calls s @ [EmbeddingsCreate [q] EMBEDDING_MODEL]\<rparr>"
  have 1: "embeddings_available client rest (world ?s1)" using rest by simp
  have 2: "\<forall>(idx, row) \<in> set rest. ''Answer'' \<in> dom row" using Cons.prems(1) by simp
  show ?case
    unfolding p loop_step_embedded [where row = row, OF q a e'] by (rule Cons.IH [OF 2 1])
qed

lemma prepare_vectors_loop_available:
  "prepare_vectors_loop client df acc s = (Inr vs, s') \<Longrightarrow> embeddings_available client df (world s)"
proof (induction df arbitrary: acc s)
  case Nil
  then show ?case by simp
next
  case (Cons p rest)
  obtain idx row where p: "p = (idx, row)" by (cases p)
  from Cons.prems obtain q a d ds w' where
    q: "row ''Question'' = Some q" and a: "row ''Answer'' = Some a"
    and e: "embeddings_create client [q] EMBEDDING_MODEL (world s) = (Inr (d # ds), w')"
    and rec: "prepare_vectors_loop client rest
        (acc @ [\<lparr>id' = ''qa_'' @ py_str idx, values' = d, metadata = \<lparr>question = q, answer = a\<rparr>\<rparr>])
        (s\<lparr>world := w', calls := calls s @ [EmbeddingsCreate [q] EMBEDDING_MODEL]\<rparr>) = (Inr vs, s')"
    unfolding p prepare_vectors_loop_Cons
    by (auto split: option.splits prod.splits sum.splits list.splits)
  from Cons.IH [OF rec] have "embeddings_available client rest w'" by simp
  with q e show ?case unfolding p by simp
qed

lemma str_nat_0: "str_nat 0 = ''0''"
  by code_simp

lemma str_nat_1: "str_nat (Suc 0) = ''1''"
  by code_simp

lemma py_str_default_index: "map py_str (default_index n) = map str_nat [0 ..< n]"
  by (simp add: default_index_def str_int_def)

lemma distinct_default_labels: "distinct (map (\<lambda>l. ''qa_'' @ py_str l) (default_index n))"
proof -
  have "inj_on (\<lambda>i. ''qa_'' @ str_nat i) (set [0 ..< n])"
    by (rule inj_onI) (simp add: inj_eq [OF inj_str_nat])
  then have "distinct (map (\<lambda>i. ''qa_'' @ str_nat i) [0 ..< n])"
    by (simp add: distinct_map)
  moreover have "map (\<lambda>l. ''qa_'' @ py_str l) (default_index n) = map (\<lambda>i. ''qa_'' @ str_nat i) [0 ..< n]"
    by (simp add: default_index_def str_int_def)
  ultimately show ?thesis by simp
qed

lemma faq_frame_available:
  "embeddings_available sim_services faq_frame (world (fresh_batch sim_up))"
  by (simp add: faq_frame_def sim_services_def fresh_batch_def sim_up_def)

text \<open>
  Claim C4, as amended. Take any data frame of \<open>N\<close> rows that have the columns
  \<^verbatim>\<open>Question\<close> and \<^verbatim>\<open>Answer\<close>. If the embedding service gives an embedding for the question
  of every row, \<open>prepare_vectors\<close> returns exactly \<open>N\<close> records; the record of the row at
  position \<open>i\<close> has the id \<^verbatim>\<open>qa_\<close> followed by the index label of that row, and its
  metadata are the \<^verbatim>\<open>Question\<close> and \<^verbatim>\<open>Answer\<close> cells of that row as the frame holds them.
  When the frame has the default index, the label of row \<open>i\<close> is \<open>i\<close>: the ids are
  \<^verbatim>\<open>qa_0\<close>, \<^verbatim>\<open>qa_1\<close>, ... and no two records share one. If the embedding service fails
  for some row, \<open>prepare_vectors\<close> raises and returns no record.
\<close>

theorem C4_prepare_vectors_records:
  "((\<forall>(idx, row) \<in> set df. ''Question'' \<in> dom row \<and> ''Answer'' \<in> dom row)
      \<and> embeddings_available client df (world s) \<longrightarrow>
     (\<exists>vectors s'. prepare_vectors client df s = (Inr vectors, s')
       \<and> length vectors = length df
       \<and> (\<forall>i<length df.
             id' (vectors ! i) = ''qa_'' @ py_str (fst (df ! i))
           \<and> snd (df ! i) ''Question'' = Some (question (metadata (vectors ! i)))
           \<and> snd (df ! i) ''Answer'' = Some (answer (metadata (vectors ! i))))
       \<and> (map fst df = default_index (length df) \<longrightarrow>
             (\<forall>i<length df. id' (vectors ! i) = ''qa_'' @ str_nat i)
           \<and> distinct (map id' vectors))))
   \<and> (\<not> embeddings_available client df (world s) \<longrightarrow>
        (\<exists>e. fst (prepare_vectors client df s) = Inl e))"
proof (intro conjI impI)
  assume h: "(\<forall>(idx, row) \<in> set df. ''Question'' \<in> dom row \<and> ''Answer'' \<in> dom row)
      \<and> embeddings_available client df (world s)"
  then have "\<forall>(idx, row) \<in> set df. ''Answer'' \<in> dom row" by auto
  from prepare_vectors_loop_total [OF this, of client s "[]"] h
  obtain vectors s' where run: "prepare_vectors_loop client df [] s = (Inr vectors, s')"
    by blast
  from prepare_vectors_loop_returns [OF run]
  have ids: "map id' vectors = map (\<lambda>(idx, row). ''qa_'' @ py_str idx) df"
    and qs: "map (\<lambda>v. Some (question (metadata v))) vectors = map (\<lambda>(idx, row). row ''Question'') df"
    and as: "map (\<lambda>v. Some (answer (metadata v))) vectors = map (\<lambda>(idx, row). row ''Answer'') df"
    by simp_all
  from ids have len: "length vectors = length df"
    by (metis length_map)
  have each: "id' (vectors ! i) = ''qa_'' @ py_str (fst (df ! i))
         \<and> snd (df ! i) ''Question'' = Some (question (metadata (vectors ! i)))
         \<and> snd (df ! i) ''Answer'' = Some (answer (metadata (vectors ! i)))"
    if i: "i < length df" for i
  proof -
    from i len have "map id' vectors ! i = id' (vectors ! i)" by simp
    with ids i have 1: "id' (vectors ! i) = ''qa_'' @ py_str (fst (df ! i))"
      by (simp add: case_prod_unfold)
    from i len have "map (\<lambda>v. Some (question (metadata v))) vectors ! i
        = Some (question (metadata (vectors ! i)))" by simp
    with qs i have 2: "snd (df ! i) ''Question'' = Some (question (metadata (vectors ! i)))"
      by (simp add: case_prod_unfold)
    from i len have "map (\<lambda>v. Some (answer (metadata v))) vectors ! i
        = Some (answer (metadata (vectors ! i)))" by simp
    with as i have 3: "snd (df ! i) ''Answer'' = Some (answer (metadata (vectors ! i)))"
      by (simp add: case_prod_unfold)
    from 1 2 3 show ?thesis by blast
  qed
  have default: "(\<forall>i<length df. id' (vectors ! i) = ''qa_'' @ str_nat i) \<and> distinct (map id' vectors)"
    if d: "map fst df = default_index (length df)"
  proof -
    have "map id' vectors = map (\<lambda>l. ''qa_'' @ py_str l) (map fst df)"
      unfolding ids by (simp add: case_prod_unfold)
    then have m: "map id' vectors = map (\<lambda>l. ''qa_'' @ py_str l) (default_index (length df))"
      using d by simp
    then have "distinct (map id' vectors)" by (simp only: distinct_default_labels)
    moreover have "id' (vectors ! i) = ''qa_'' @ str_nat i" if i: "i < length df" for i
    proof -
      from i len have "id' (vectors ! i) = map id' vectors ! i" by simp
      also have "\<dots> = ''qa_'' @ str_nat i"
        unfolding m using i by (simp add: default_index_def str_int_def)
      finally show ?thesis .
    qed
    ultimately show ?thesis by blast
  qed
  from run len each default
  show "\<exists>vectors s'. prepare_vectors client df s = (Inr vectors, s')
       \<and> length vectors = length df
       \<and> (\<forall>i<length df.
             id' (vectors ! i) = ''qa_'' @ py_str (fst (df ! i))
           \<and> snd (df ! i) ''Question'' = Some (question (metadata (vectors ! i)))
           \<and> snd (df ! i) ''Answer'' = Some (answer (metadata (vectors ! i))))
       \<and> (map fst df = default_index (length df) \<longrightarrow>
             (\<forall>i<length df. id' (vectors ! i) = ''qa_'' @ str_nat i)
           \<and> distinct (map id' vectors))"
    unfolding prepare_vectors_def by blast
next
  assume n: "\<not> embeddings_available client df (world s)"
  obtain r s' where run: "prepare_vectors_loop client df [] s = (r, s')"
    by (cases "prepare_vectors_loop client df [] s")
  show "\<exists>e. fst (prepare_vectors client df s) = Inl e"
  proof (cases r)
    case (Inl e)
    with run show ?thesis by (simp add: prepare_vectors_def)
  next
    case (Inr vs)
    with run n prepare_vectors_loop_available [of client df "[]" s vs s'] show ?thesis by simp
  qed
qed

theorem C4_prepare_vectors_records_witness:
  "(\<exists>vectors s'. prepare_vectors sim_services faq_frame (fresh_batch sim_up) = (Inr vectors, s')
      \<and> length vectors = 2
      \<and> id' (vectors ! 0) = ''qa_0'' \<and> id' (vectors ! 1) = ''qa_1''
      \<and> question (metadata (vectors ! 0)) = PyStr ''Do you ship internationally?''
      \<and> answer (metadata (vectors ! 0)) = PyStr ''Yes, worldwide.''
      \<and> question (metadata (vectors ! 1)) = PyStr ''What is your return policy?''
      \<and> answer (metadata (vectors ! 1)) = PyStr ''30 days.''
      \<and> distinct (map id' vectors))
   \<and> (\<exists>e. fst (prepare_vectors sim_services faq_frame
                 (fresh_batch (sim_up\<lparr>embed_down := True\<rparr>))) = Inl e)"
proof -
  have cols: "\<forall>(idx, row) \<in> set faq_frame. ''Question'' \<in> dom row \<and> ''Answer'' \<in> dom row"
    by (simp add: faq_frame_def)
  have labels: "map fst faq_frame = default_index (length faq_frame)"
    by (simp add: faq_frame_def default_index_def)
  have down: "\<not> embeddings_available sim_services faq_frame
      (world (fresh_batch (sim_up\<lparr>embed_down := True\<rparr>)))"
    by (simp add: faq_frame_def sim_services_def fresh_batch_def sim_up_def)
  from C4_prepare_vectors_records [of faq_frame sim_services "fresh_batch sim_up"]
    cols faq_frame_available labels
  obtain vectors s' where run: "prepare_vectors sim_services faq_frame (fresh_batch sim_up) = (Inr vectors, s')"
    and len: "length vectors = length faq_frame"
    and each: "\<forall>i<length faq_frame.
             id' (vectors ! i) = ''qa_'' @ py_str (fst (faq_frame ! i))
           \<and> snd (faq_frame ! i) ''Question'' = Some (question (metadata (vectors ! i)))
           \<and> snd (faq_frame ! i) ''Answer'' = Some (answer (metadata (vectors ! i)))"
    and dist: "distinct (map id' vectors)"
    by blast
  have l2: "length faq_frame = 2" by (simp add: faq_frame_def)
  from each l2 have e0: "id' (vectors ! 0) = ''qa_'' @ py_str (fst (faq_frame ! 0))
           \<and> snd (faq_frame ! 0) ''Question'' = Some (question (metadata (vectors ! 0)))
           \<and> snd (faq_frame ! 0) ''Answer'' = Some (answer (metadata (vectors ! 0)))"
    by simp
  from each l2 have e1: "id' (vectors ! 1) = ''qa_'' @ py_str (fst (faq_frame ! 1))
           \<and> snd (faq_frame ! 1) ''Question'' = Some (question (metadata (vectors ! 1)))
           \<and> snd (faq_frame ! 1) ''Answer'' = Some (answer (metadata (vectors ! 1)))"
    by simp
  from e0 have r0: "id' (vectors ! 0) = ''qa_0''
      \<and> question (metadata (vectors ! 0)) = PyStr ''Do you ship internationally?''
      \<and> answer (metadata (vectors ! 0)) = PyStr ''Yes, worldwide.''"
    by (simp add: faq_frame_def str_int_def str_nat_0)
  from e1 have r1: "id' (vectors ! 1) = ''qa_1''
      \<and> question (metadata (vectors ! 1)) = PyStr ''What is your return policy?''
      \<and> answer (metadata (vectors ! 1)) = PyStr ''30 days.''"
    by (simp add: faq_frame_def str_int_def str_nat_1)
  from C4_prepare_vectors_records [of faq_frame sim_services
      "fresh_batch (sim_up\<lparr>embed_down := True\<rparr>)"] down
  have fails: "\<exists>e. fst (prepare_vectors sim_services faq_frame
                 (fresh_batch (sim_up\<lparr>embed_down := True\<rparr>))) = Inl e"
    by blast
  from run len l2 r0 r1 dist have "\<exists>vectors s'.
        prepare_vectors sim_services faq_frame (fresh_batch sim_up) = (Inr vectors, s')
      \<and> length vectors = 2
      \<and> id' (vectors ! 0) = ''qa_0'' \<and> id' (vectors ! 1) = ''qa_1''
      \<and> question (metadata (vectors ! 0)) = PyStr ''Do you ship internationally?''
      \<and> answer (metadata (vectors ! 0)) = PyStr ''Yes, worldwide.''
      \<and> question (metadata (vectors ! 1)) = PyStr ''What is your return policy?''
      \<and> answer (metadata (vectors ! 1)) = PyStr ''30 days.''
      \<and> distinct (map id' vectors)"
    by auto
  with fails show ?thesis by (intro conjI)
qed

text \<open>The claim as written (every such input gives \<open>N\<close> records) fails when the embedding
  service is down: \<open>prepare_vectors\<close> raises at the first row and returns no record.\<close>

theorem C4_no_records_when_embedding_fails:
  "fst (prepare_vectors sim_services faq_frame (fresh_batch (sim_up\<lparr>embed_down := True\<rparr>)))
   = Inl (PyException ''embedding service unavailable'')"
  by (simp add: prepare_vectors_def faq_frame_def prepare_vectors_loop_Cons
      sim_services_def fresh_batch_def sim_up_def del: prepare_vectors_loop.simps)




end
